theory Spec2Isabelle
  imports Complex_Main "HOL-Library.Log_Nat" "HOL-Library.Multiset" "HOL-Library.Sublist"
    "HOL-Library.Word"
begin

section \<open>JavaScript values used by the CTAD sources\<close>

subsection \<open>Strings\<close>

text \<open>
  A JavaScript string is a sequence of UTF-16 code units. The model covers the strings
  whose code units are below 256 (ASCII and Latin-1): a \<^typ>\<open>char\<close> is one code unit.
  \<^verbatim>\<open>String.prototype.toLowerCase\<close> maps \<open>A..Z\<close> and the Latin-1 capitals
  (\<open>0xC0..0xDE\<close> without the multiplication sign \<open>0xD7\<close>) to the code unit 32 above;
  \<^verbatim>\<open>String.prototype.trim\<close> strips white space and line terminators from both ends,
  which below 256 are the code units 9 to 13, 32 and 160.
\<close>

definition toLowerChar :: "char \<Rightarrow> char" where
  "toLowerChar c =
     (let n = (of_char c :: nat)
      in if (65 \<le> n \<and> n \<le> 90) \<or> (192 \<le> n \<and> n \<le> 222 \<and> n \<noteq> 215)
         then char_of (n + 32) else c)"

definition toLowerCase :: "string \<Rightarrow> string" where
  "toLowerCase s = map toLowerChar s"

definition isWhiteSpace :: "char \<Rightarrow> bool" where
  "isWhiteSpace c = ((of_char c :: nat) \<in> {9, 10, 11, 12, 13, 32, 160})"

definition trim :: "string \<Rightarrow> string" where
  "trim s = rev (dropWhile isWhiteSpace (rev (dropWhile isWhiteSpace s)))"

text \<open>
  A property that may be absent (\<^verbatim>\<open>undefined\<close>, \<^verbatim>\<open>null\<close>, or a form field that was
  not sent) is an \<open>option\<close>. A string is truthy when it is present and not empty.
\<close>

definition truthy :: "string option \<Rightarrow> bool" where
  "truthy v = (case v of None \<Rightarrow> False | Some s \<Rightarrow> s \<noteq> [])"

text \<open>\<^verbatim>\<open>v?.trim()\<close>: the trimmed string, or nothing when \<open>v\<close> is absent.\<close>

definition optTrim :: "string option \<Rightarrow> string option" where
  "optTrim v = map_option trim v"

text \<open>\<^verbatim>\<open>v?.trim() || null\<close>: an absent, empty or blank string becomes \<^verbatim>\<open>null\<close>.\<close>

definition trimOrNull :: "string option \<Rightarrow> string option" where
  "trimOrNull v = (if truthy (optTrim v) then optTrim v else None)"

subsection \<open>Property lookup on an object literal\<close>

text \<open>
  \<^verbatim>\<open>obj[key]\<close> on an object written as a literal finds the object's own properties
  first and then the properties every object inherits from \<^verbatim>\<open>Object.prototype\<close>.
  The inherited members are functions, except \<^verbatim>\<open>__proto__\<close>, which yields the
  prototype object itself; none of them is a string and all of them are truthy.
\<close>

definition objectPrototypeKeys :: "string list" where
  "objectPrototypeKeys =
     [''constructor'', ''__defineGetter__'', ''__defineSetter__'', ''hasOwnProperty'',
      ''__lookupGetter__'', ''__lookupSetter__'', ''isPrototypeOf'', ''propertyIsEnumerable'',
      ''toString'', ''valueOf'', ''__proto__'', ''toLocaleString'']"

datatype 'a js_lookup = Own 'a | Inherited string | Undefined

definition js_get :: "(string \<times> 'a) list \<Rightarrow> string \<Rightarrow> 'a js_lookup" where
  "js_get obj k =
     (case map_of obj k of
        Some v \<Rightarrow> Own v
      | None \<Rightarrow> if k \<in> set objectPrototypeKeys then Inherited k else Undefined)"

text \<open>
  What a function typed as returning \<^verbatim>\<open>string\<close> can hold at run time here: a string,
  or the member of \<^verbatim>\<open>Object.prototype\<close> of the given name.
\<close>

datatype js_value = Str string | ProtoMember string

subsection \<open>Numbers\<close>

text \<open>
  A JavaScript number is an IEEE 754 binary64 value. The model carries a finite number as
  the rational it denotes, and every arithmetic operation rounds its exact result to the
  nearest binary64 value, ties to the even significand (\<open>fl\<close>): 53 significant bits for
  normal values, multiples of \<open>2 powi - 1074\<close> below the normal range. Infinities and NaN
  are not values of the model; the numbers of this program (scores in \<open>[0, 1]\<close>, point
  totals, durations) stay far from the overflow threshold.
\<close>

type_synonym number = rat

definition round_half_even :: "rat \<Rightarrow> int" where
  "round_half_even x =
     (let f = \<lfloor>x\<rfloor>; d = x - of_int f
      in if d < 1 / 2 then f else if 1 / 2 < d then f + 1 else if even f then f else f + 1)"

text \<open>\<open>ilog2 x\<close> is the binary exponent of a positive \<open>x\<close>: \<open>2 powi ilog2 x \<le> x < 2 powi (ilog2 x + 1)\<close>.\<close>

definition ilog2 :: "rat \<Rightarrow> int" where
  "ilog2 x = (if 1 \<le> x then bitlen \<lfloor>x\<rfloor> - 1 else - bitlen (\<lceil>1 / x\<rceil> - 1))"

definition fl :: "rat \<Rightarrow> number" where
  "fl x =
     (if x = 0 then 0
      else let e = max (ilog2 \<bar>x\<bar> - 52) (- 1074)
           in sgn x * of_int (round_half_even (\<bar>x\<bar> / 2 powi e)) * 2 powi e)"

definition fadd :: "number \<Rightarrow> number \<Rightarrow> number" where
  "fadd a b = fl (a + b)"

definition fsub :: "number \<Rightarrow> number \<Rightarrow> number" where
  "fsub a b = fl (a - b)"

definition fmul :: "number \<Rightarrow> number \<Rightarrow> number" where
  "fmul a b = fl (a * b)"

text \<open>Division; the sources divide by the non-zero constants 60 and 1000 only.\<close>

definition fdiv :: "number \<Rightarrow> number \<Rightarrow> number" where
  "fdiv a b = fl (a / b)"

text \<open>
  \<^verbatim>\<open>Math.round\<close>: the nearest integer, a tie going up. It is exact: the result of
  rounding a binary64 value to an integer is itself a binary64 value.
\<close>

definition Math_round :: "number \<Rightarrow> int" where
  "Math_round x = \<lfloor>x + 1 / 2\<rfloor>"

text \<open>A number is truthy unless it is zero (or NaN, which the model does not have).\<close>

definition truthyNum :: "number option \<Rightarrow> bool" where
  "truthyNum v = (case v of None \<Rightarrow> False | Some x \<Rightarrow> x \<noteq> 0)"

section \<open>\<^verbatim>\<open>src/lib/process-utils.ts\<close>: tiers and platforms\<close>

text \<open>
  The tiers \<^verbatim>\<open>'explorer' | 'curator' | 'tastemaker' | 'oracle'\<close>; the database's enumeration
  writes the same four names in capitals (\<^verbatim>\<open>tierToPrismaEnum\<close>, and \<^verbatim>\<open>toLowerCase\<close> on
  the way back), so one datatype stands for both.
\<close>

datatype ContributorTier = Explorer | Curator | Tastemaker | Oracle

text \<open>\<^verbatim>\<open>TIER_THRESHOLDS_LOCAL\<close>: \<open>min\<close> and \<open>max\<close> of each tier; no \<open>max\<close> stands for \<^verbatim>\<open>Infinity\<close>.\<close>

fun TIER_THRESHOLDS_LOCAL :: "ContributorTier \<Rightarrow> int \<times> int option" where
  "TIER_THRESHOLDS_LOCAL Explorer = (0, Some 99)"
| "TIER_THRESHOLDS_LOCAL Curator = (100, Some 499)"
| "TIER_THRESHOLDS_LOCAL Tastemaker = (500, Some 1999)"
| "TIER_THRESHOLDS_LOCAL Oracle = (2000, None)"

definition tier_min :: "ContributorTier \<Rightarrow> int" where
  "tier_min t = fst (TIER_THRESHOLDS_LOCAL t)"

text \<open>
  Point totals are whole numbers (a sum of \<^verbatim>\<open>Math.round\<close> results), far below \<open>2^53\<close>,
  where binary64 arithmetic on them is exact: they are modelled as \<^typ>\<open>int\<close>.
\<close>

definition calculateTier :: "int \<Rightarrow> ContributorTier" where
  "calculateTier totalPoints =
     (if totalPoints \<ge> tier_min Oracle then Oracle
      else if totalPoints \<ge> tier_min Tastemaker then Tastemaker
      else if totalPoints \<ge> tier_min Curator then Curator
      else Explorer)"

text \<open>The order of the tiers: explorer, curator, tastemaker, oracle.\<close>

fun tier_rank :: "ContributorTier \<Rightarrow> nat" where
  "tier_rank Explorer = 0"
| "tier_rank Curator = 1"
| "tier_rank Tastemaker = 2"
| "tier_rank Oracle = 3"

definition platformMap :: "(string \<times> string) list" where
  "platformMap =
     [(''midjourney'', ''MIDJOURNEY''),
      (''suno'', ''SUNO''),
      (''udio'', ''UDIO''),
      (''runway'', ''RUNWAY''),
      (''pika'', ''PIKA''),
      (''dalle'', ''DALLE''),
      (''flux'', ''FLUX''),
      (''leonardo'', ''LEONARDO''),
      (''stable-diffusion'', ''STABLE_DIFFUSION''),
      (''higgsfield'', ''HIGGSFIELD''),
      (''chatgpt'', ''CHATGPT''),
      (''claude'', ''CLAUDE'')]"

text \<open>
  \<^verbatim>\<open>platformMap[platform.toLowerCase()] || 'UNKNOWN'\<close>: an own entry is a non-empty string
  and is returned; an inherited member is truthy and is returned as it is; only a key
  that is found nowhere falls through to \<^verbatim>\<open>'UNKNOWN'\<close>.
\<close>

definition mapPlatformToEnum :: "string \<Rightarrow> js_value" where
  "mapPlatformToEnum platform =
     (case js_get platformMap (toLowerCase platform) of
        Own v \<Rightarrow> if v \<noteq> [] then Str v else Str ''UNKNOWN''
      | Inherited k \<Rightarrow> ProtoMember k
      | Undefined \<Rightarrow> Str ''UNKNOWN'')"

text \<open>\<^verbatim>\<open>PLATFORM_RARITY_LOCAL\<close>; a decimal literal denotes the binary64 value nearest to it.\<close>

definition PLATFORM_RARITY_LOCAL :: "(string \<times> number) list" where
  "PLATFORM_RARITY_LOCAL =
     [(''MIDJOURNEY'', fl (8 / 10)),
      (''CHATGPT'', fl (7 / 10)),
      (''DALLE'', fl (9 / 10)),
      (''STABLE_DIFFUSION'', fl 1),
      (''SUNO'', fl (12 / 10)),
      (''UDIO'', fl (13 / 10)),
      (''RUNWAY'', fl (14 / 10)),
      (''PIKA'', fl (15 / 10)),
      (''HIGGSFIELD'', fl (18 / 10)),
      (''FLUX'', fl (13 / 10)),
      (''LEONARDO'', fl (11 / 10)),
      (''CLAUDE'', fl (9 / 10)),
      (''UNKNOWN'', fl 1)]"

text \<open>
  \<^verbatim>\<open>PLATFORM_RARITY_LOCAL[platformEnum] || 1.0\<close>. A string key is looked up in the table
  (\<open>mapPlatformToEnum\<close> returns no string but the table's own keys, so the inherited
  members are not reached through a string). A value that is not a string is converted to
  its printed form (\<^verbatim>\<open>"function Object() { [native code] }"\<close>, \<^verbatim>\<open>"[object Object]"\<close>),
  which names no property: the lookup is \<^verbatim>\<open>undefined\<close> and the bonus is 1.0.
\<close>

definition rarityBonusOf :: "js_value \<Rightarrow> number" where
  "rarityBonusOf platformEnum =
     (case platformEnum of
        Str k \<Rightarrow> (case map_of PLATFORM_RARITY_LOCAL k of
                    Some v \<Rightarrow> if v \<noteq> 0 then v else 1
                  | None \<Rightarrow> 1)
      | ProtoMember k \<Rightarrow> 1)"

section \<open>\<^verbatim>\<open>src/lib/types/process.ts\<close>: the process-capture payload\<close>

text \<open>
  The request body after \<^verbatim>\<open>request.json()\<close>, at the shape of \<^verbatim>\<open>ProcessDeclarationInput\<close>:
  every property may be missing, a string may be empty, and an array property that is
  missing or not an array is \<open>None\<close>. (The \<^verbatim>\<open>metadata\<close> of a prompt version is never read
  by the sources and is left out.)
\<close>

record PromptVersion =
  pv_id :: "string option"
  pv_content :: "string option"
  pv_timestamp :: "string option"
  pv_parentId :: "string option"
  pv_mode :: "string option"
  pv_platform :: "string option"

record RejectedOutput =
  ro_id :: "string option"
  ro_promptVersionId :: "string option"
  ro_timestamp :: "string option"
  ro_reason :: "string option"
  ro_customFeedback :: "string option"

record SelectedOutput =
  so_id :: "string option"
  so_promptVersionId :: "string option"
  so_timestamp :: "string option"
  so_likeReason :: "string option"
  so_customFeedback :: "string option"
  so_outputHash :: "string option"

record ProcessDeclarationInput =
  in_platform :: "string option"
  in_sessionStartedAt :: "string option"
  in_sessionEndedAt :: "string option"
  in_sessionDuration :: "number option"
  in_iterationCount :: "number option"
  in_promptLineage :: "PromptVersion list option"
  in_rejectedOutputs :: "RejectedOutput list option"
  in_selectedOutput :: "SelectedOutput option"
  in_consentForTrainingData :: bool
  in_consentTimestamp :: "string option"
  in_consentVersion :: "string option"
  in_contributorId :: "string option"
  in_expertiseTags :: "string list option"

record ContributorReward =
  pointsEarned :: int
  newTotal :: int
  tierChange :: "(ContributorTier \<times> ContributorTier) option"
  qualityMultiplier :: number
  rarityBonus :: number

subsection \<open>Dates\<close>

text \<open>
  \<^verbatim>\<open>new Date(s)\<close> is a time in milliseconds since the epoch, or the Invalid Date, whose
  \<^verbatim>\<open>getTime()\<close> is NaN. Which strings parse is the engine's business: the parser is a
  parameter of the model.
\<close>

type_synonym timestamp = int

datatype Date = Date timestamp | InvalidDate

definition newDate :: "(string \<Rightarrow> timestamp option) \<Rightarrow> string \<Rightarrow> Date" where
  "newDate parse s = (case parse s of Some t \<Rightarrow> Date t | None \<Rightarrow> InvalidDate)"

text \<open>A number that may be NaN, where the sources can produce one.\<close>

datatype num_or_nan = Num number | NaN

section \<open>\<^verbatim>\<open>src/lib/process-utils.ts\<close>: validation\<close>

datatype ValidationResult = Valid | Invalid string

text \<open>The decimal digits of an index, for the template strings.\<close>

fun string_of_nat :: "nat \<Rightarrow> string" where
  "string_of_nat n =
     (if n < 10 then [char_of (48 + n)]
      else string_of_nat (n div 10) @ [char_of (48 + n mod 10)])"

declare string_of_nat.simps [simp del]

text \<open>The loop over \<^verbatim>\<open>input.promptLineage\<close>: the first entry with a missing field ends it.\<close>

fun validatePromptLineage :: "nat \<Rightarrow> PromptVersion list \<Rightarrow> ValidationResult" where
  "validatePromptLineage i [] = Valid"
| "validatePromptLineage i (version # rest) =
     (if \<not> truthy (pv_id version) \<or> \<not> truthy (pv_content version)
         \<or> \<not> truthy (pv_timestamp version) \<or> \<not> truthy (pv_mode version)
      then Invalid (''Invalid prompt version at index '' @ string_of_nat i
                    @ '': missing required fields (id, content, timestamp, mode)'')
      else validatePromptLineage (Suc i) rest)"

fun validateRejectedOutputs :: "nat \<Rightarrow> RejectedOutput list \<Rightarrow> ValidationResult" where
  "validateRejectedOutputs i [] = Valid"
| "validateRejectedOutputs i (rejection # rest) =
     (if \<not> truthy (ro_id rejection) \<or> \<not> truthy (ro_promptVersionId rejection)
         \<or> \<not> truthy (ro_timestamp rejection)
      then Invalid (''Invalid rejected output at index '' @ string_of_nat i
                    @ '': missing required fields (id, promptVersionId, timestamp)'')
      else validateRejectedOutputs (Suc i) rest)"

definition validateProcessInput ::
  "(string \<Rightarrow> timestamp option) \<Rightarrow> ProcessDeclarationInput \<Rightarrow> ValidationResult" where
  "validateProcessInput parse input =
     (if \<not> truthy (in_platform input) then Invalid ''Platform is required''
      else case in_sessionStartedAt input of
        None \<Rightarrow> Invalid ''Session start time is required''
      | Some started \<Rightarrow>
        if started = [] then Invalid ''Session start time is required''
        else if newDate parse started = InvalidDate
          then Invalid ''Invalid session start time format (expected ISO 8601)''
        else case in_promptLineage input of
          None \<Rightarrow> Invalid ''Prompt lineage must be an array''
        | Some lineage \<Rightarrow>
          case in_rejectedOutputs input of
            None \<Rightarrow> Invalid ''Rejected outputs must be an array''
          | Some rejected \<Rightarrow>
            case validatePromptLineage 0 lineage of
              Invalid e \<Rightarrow> Invalid e
            | Valid \<Rightarrow>
              case validateRejectedOutputs 0 rejected of
                Invalid e \<Rightarrow> Invalid e
              | Valid \<Rightarrow>
                if (case in_selectedOutput input of
                      None \<Rightarrow> False
                    | Some selection \<Rightarrow>
                        \<not> truthy (so_id selection) \<or> \<not> truthy (so_promptVersionId selection)
                        \<or> \<not> truthy (so_timestamp selection))
                then Invalid ''Invalid selected output: missing required fields (id, promptVersionId, timestamp)''
                else if in_consentForTrainingData input \<and> \<not> truthy (in_consentTimestamp input)
                then Invalid ''Consent timestamp required when consent is given''
                else Valid)"

section \<open>The database\<close>

text \<open>
  Modelled from the spec: the database schema (\<^verbatim>\<open>prisma/schema.prisma\<close>) is not among the
  sources. The tables and their columns are those of the spec's data model, as far as the
  calls in the sources read or write them; a table is the list of its rows in the order
  they were inserted. Identifiers and creation times are generated by the database and
  reach the model through the environment of each operation.
\<close>

record Work =
  w_id :: string
  w_title :: string
  w_createdAt :: timestamp

record Declaration =
  d_id :: string
  d_workId :: string
  d_createdAt :: timestamp
  d_intent :: string
  d_tools :: string
  d_aiUsed :: bool
  d_contributors :: "string option"

record DeclarationRevision =
  r_id :: string
  r_declarationId :: string
  r_createdAt :: timestamp
  r_changeNote :: string
  r_intent :: "string option"
  r_tools :: "string option"
  r_aiUsed :: "bool option"
  r_contributors :: "string option"

record AudioReference =
  a_id :: string
  a_declarationId :: string
  a_createdAt :: timestamp
  a_fileName :: string
  a_sha256 :: string
  a_description :: "string option"

record ProcessDeclaration =
  pd_id :: string
  pd_platform :: js_value
  pd_sessionStartedAt :: Date
  pd_sessionEndedAt :: "Date option"
  pd_sessionDuration :: "num_or_nan option"
  pd_iterationCount :: number
  pd_promptLineage :: "PromptVersion list"
  pd_rejectedOutputs :: "RejectedOutput list"
  pd_selectedOutput :: "SelectedOutput option"
  pd_consentForTrainingData :: bool
  pd_consentTimestamp :: "Date option"
  pd_consentVersion :: "string option"
  pd_contributorId :: "string option"
  pd_contributorExpertiseTags :: "string list"

text \<open>
  \<open>c_platformStats\<close> is the JSON column: absent, or an object from a platform key to its
  \<^verbatim>\<open>{contributions, accuracy}\<close> entry, in insertion order.
\<close>

record Contributor =
  c_id :: string
  c_anonymousId :: string
  c_totalContributions :: int
  c_totalPoints :: int
  c_currentTier :: ContributorTier
  c_tasteScore :: number
  c_expertiseTags :: "string list"
  c_platformStats :: "(string \<times> (int \<times> number)) list option"
  c_consentVersion :: "string option"
  c_consentTimestamp :: "Date option"

record db =
  works :: "Work list"
  declarations :: "Declaration list"
  revisions :: "DeclarationRevision list"
  audioRefs :: "AudioReference list"
  processDeclarations :: "ProcessDeclaration list"
  contributors :: "Contributor list"

text \<open>
  What an operation takes from outside the sources: the date parser, the identifiers the
  database generates, the clock, and whether a call to the database throws.
\<close>

record Env =
  parseDate :: "string \<Rightarrow> timestamp option"
  now :: timestamp
  newId :: "nat \<Rightarrow> string"
  declarationCreateThrows :: "string option"
  contributorFindThrows :: bool
  contributorCreateThrows :: bool
  contributorUpdateThrows :: bool

datatype exn = TypeError | PrismaError

section \<open>\<^verbatim>\<open>src/lib/process-utils.ts\<close>: the reward\<close>

text \<open>
  The base points. \<open>lineage\<close> and \<open>rejected\<close> are the two arrays of the input; the
  duration bonus is read off \<^verbatim>\<open>input.sessionDuration / 60\<close>, a binary64 division.
\<close>

definition calculateBasePoints ::
  "ProcessDeclarationInput \<Rightarrow> PromptVersion list \<Rightarrow> RejectedOutput list \<Rightarrow> int" where
  "calculateBasePoints input lineage rejected =
     (let b0 = 10;
          b1 = b0 + min (int (length lineage) * 2) 20;
          b2 = b1 + min (int (length rejected) * 3) 30;
          b3 = (case in_selectedOutput input of
                  None \<Rightarrow> b2
                | Some selection \<Rightarrow>
                    b2 + 10
                    + (if truthy (so_likeReason selection) then 5 else 0)
                    + (if truthy (so_customFeedback selection) then 10 else 0));
          b4 = (case in_sessionDuration input of
                  None \<Rightarrow> b3
                | Some duration \<Rightarrow>
                    if duration \<noteq> 0
                    then let minutes = fdiv duration 60
                         in if minutes \<ge> 15 then b3 + 10
                            else if minutes \<ge> 5 then b3 + 5
                            else if minutes \<ge> 2 then b3 + 2
                            else b3
                    else b3)
      in case in_expertiseTags input of
           None \<Rightarrow> b4
         | Some tags \<Rightarrow>
             if length tags > 0 then b4 + min (int (length tags) * 2) 6 else b4)"

text \<open>
  \<^verbatim>\<open>new Set(existing)\<close>, then \<^verbatim>\<open>add\<close> for each new tag, then \<^verbatim>\<open>Array.from\<close>: the distinct
  tags in the order of their first occurrence.
\<close>

definition setAdd :: "'a list \<Rightarrow> 'a \<Rightarrow> 'a list" where
  "setAdd acc x = (if x \<in> set acc then acc else acc @ [x])"

definition mergeTags :: "string list \<Rightarrow> string list \<Rightarrow> string list" where
  "mergeTags existing new = foldl setAdd (foldl setAdd [] existing) new"

text \<open>Assigning an own property: in place when the key is there, at the end otherwise.\<close>

fun js_set :: "(string \<times> 'a) list \<Rightarrow> string \<Rightarrow> 'a \<Rightarrow> (string \<times> 'a) list" where
  "js_set [] k v = [(k, v)]"
| "js_set (p # ps) k v = (if fst p = k then (k, v) # ps else p # js_set ps k v)"

text \<open>
  The platform counter. Under a key that \<^verbatim>\<open>Object.prototype\<close> answers, the test
  \<^verbatim>\<open>!platformStats[platformKey]\<close> is false and the increment lands on the inherited member:
  the statistics themselves stay as they are.
\<close>

definition bumpPlatformStats ::
  "(string \<times> (int \<times> number)) list option \<Rightarrow> string \<Rightarrow> (string \<times> (int \<times> number)) list" where
  "bumpPlatformStats stored platformKey =
     (let platformStats = (case stored of None \<Rightarrow> [] | Some st \<Rightarrow> st)
      in case js_get platformStats platformKey of
           Own (n, acc) \<Rightarrow> js_set platformStats platformKey (n + 1, acc)
         | Undefined \<Rightarrow> js_set platformStats platformKey (0 + 1, 1 / 2)
         | Inherited k \<Rightarrow> platformStats)"

text \<open>
  \<^verbatim>\<open>prisma.contributor.findUnique\<close> by the anonymous identifier, and the lazy
  \<^verbatim>\<open>prisma.contributor.create\<close> with the neutral taste score.
\<close>

definition findContributor :: "db \<Rightarrow> string \<Rightarrow> Contributor option" where
  "findContributor d anonymousId = find (\<lambda>c. c_anonymousId c = anonymousId) (contributors d)"

definition newContributor :: "Env \<Rightarrow> string \<Rightarrow> ProcessDeclarationInput \<Rightarrow> Contributor" where
  "newContributor env contributorId input =
     \<lparr> c_id = newId env 0,
       c_anonymousId = contributorId,
       c_totalContributions = 0,
       c_totalPoints = 0,
       c_currentTier = Explorer,
       c_tasteScore = 1 / 2,
       c_expertiseTags = (case in_expertiseTags input of None \<Rightarrow> [] | Some tags \<Rightarrow> tags),
       c_platformStats = None,
       c_consentVersion = None,
       c_consentTimestamp = None \<rparr>"

definition getOrCreateContributor ::
  "Env \<Rightarrow> string \<Rightarrow> ProcessDeclarationInput \<Rightarrow> db \<Rightarrow> exn + (Contributor \<times> db)" where
  "getOrCreateContributor env contributorId input d =
     (if contributorFindThrows env then Inl PrismaError
      else case findContributor d contributorId of
        Some contributor \<Rightarrow> Inr (contributor, d)
      | None \<Rightarrow>
          if contributorCreateThrows env then Inl PrismaError
          else let contributor = newContributor env contributorId input
               in Inr (contributor, d\<lparr>contributors := contributors d @ [contributor]\<rparr>))"

text \<open>\<^verbatim>\<open>prisma.contributor.update\<close> where the row's \<open>id\<close> is the given one.\<close>

definition updateContributor :: "string \<Rightarrow> (Contributor \<Rightarrow> Contributor) \<Rightarrow> db \<Rightarrow> db" where
  "updateContributor rowId f d =
     d\<lparr>contributors := map (\<lambda>c. if c_id c = rowId then f c else c) (contributors d)\<rparr>"

text \<open>
  The multipliers, the final points and the update of the contributor's row. A property
  that is \<^verbatim>\<open>undefined\<close> in the update's data leaves its column as it is.
\<close>

definition rewardAndUpdate ::
  "Env \<Rightarrow> ProcessDeclarationInput \<Rightarrow> string \<Rightarrow> int \<Rightarrow> Contributor \<Rightarrow> db
    \<Rightarrow> (exn + ContributorReward) \<times> db" where
  "rewardAndUpdate env input platformName basePoints contributor d =
     (let qualityMultiplier = fadd (1 / 2) (c_tasteScore contributor);
          platformEnum = mapPlatformToEnum platformName;
          rarityBonus = rarityBonusOf platformEnum;
          pointsEarned = Math_round (fmul (fmul (of_int basePoints) qualityMultiplier) rarityBonus);
          newTotal = c_totalPoints contributor + pointsEarned;
          previousTier = c_currentTier contributor;
          newTier = calculateTier newTotal;
          tierChanged = (newTier \<noteq> previousTier);
          mergedTags = mergeTags (c_expertiseTags contributor)
                         (case in_expertiseTags input of None \<Rightarrow> [] | Some tags \<Rightarrow> tags);
          platformStats = bumpPlatformStats (c_platformStats contributor) (toLowerCase platformName)
      in if contributorUpdateThrows env then (Inl PrismaError, d)
         else
           (Inr \<lparr> pointsEarned = pointsEarned,
                  newTotal = newTotal,
                  tierChange = (if tierChanged then Some (previousTier, newTier) else None),
                  qualityMultiplier = qualityMultiplier,
                  rarityBonus = rarityBonus \<rparr>,
            updateContributor (c_id contributor)
              (\<lambda>c. c\<lparr> c_totalContributions := c_totalContributions contributor + 1,
                      c_totalPoints := newTotal,
                      c_currentTier := newTier,
                      c_expertiseTags := mergedTags,
                      c_platformStats := Some platformStats,
                      c_consentVersion :=
                        (case in_consentVersion input of
                           None \<Rightarrow> c_consentVersion c | Some v \<Rightarrow> Some v),
                      c_consentTimestamp :=
                        (case in_consentTimestamp input of
                           None \<Rightarrow> c_consentTimestamp c
                         | Some ts \<Rightarrow> if ts \<noteq> [] then Some (newDate (parseDate env) ts)
                                      else c_consentTimestamp c) \<rparr>)
              d))"

text \<open>
  \<open>calculateContributionReward\<close>. Reading \<^verbatim>\<open>.length\<close> of a missing array and calling
  \<^verbatim>\<open>.toLowerCase()\<close> on a missing platform throw a \<^verbatim>\<open>TypeError\<close>, the latter after the
  contributor has been looked up or created.
\<close>

definition calculateContributionReward ::
  "Env \<Rightarrow> string \<Rightarrow> string \<Rightarrow> ProcessDeclarationInput \<Rightarrow> db
    \<Rightarrow> (exn + ContributorReward) \<times> db" where
  "calculateContributionReward env contributorId processDeclarationId input d =
     (case in_promptLineage input of
        None \<Rightarrow> (Inl TypeError, d)
      | Some lineage \<Rightarrow>
        case in_rejectedOutputs input of
          None \<Rightarrow> (Inl TypeError, d)
        | Some rejected \<Rightarrow>
          let basePoints = calculateBasePoints input lineage rejected
          in case getOrCreateContributor env contributorId input d of
               Inl e \<Rightarrow> (Inl e, d)
             | Inr (contributor, d1) \<Rightarrow>
                 case in_platform input of
                   None \<Rightarrow> (Inl TypeError, d1)
                 | Some platformName \<Rightarrow>
                     rewardAndUpdate env input platformName basePoints contributor d1)"

text \<open>
  \<open>updateTasteScore\<close>: the exponential moving average with \<^verbatim>\<open>alpha = 0.2\<close>, clamped by
  \<^verbatim>\<open>Math.max(0, Math.min(1, _))\<close>.
\<close>

definition alpha :: number where
  "alpha = fl (2 / 10)"

definition updateTasteScore :: "string \<Rightarrow> number \<Rightarrow> db \<Rightarrow> number \<times> db" where
  "updateTasteScore contributorId alignmentScore d =
     (case findContributor d contributorId of
        None \<Rightarrow> (1 / 2, d)
      | Some contributor \<Rightarrow>
          let newTasteScore =
                fadd (fmul (c_tasteScore contributor) (fsub 1 alpha)) (fmul alignmentScore alpha);
              clampedScore = max 0 (min 1 newTasteScore)
          in (clampedScore,
              updateContributor (c_id contributor) (\<lambda>c. c\<lparr>c_tasteScore := clampedScore\<rparr>) d))"

section \<open>\<^verbatim>\<open>src/lib/actions.ts\<close>: the declaration ledger\<close>

subsection \<open>Revisions\<close>

text \<open>
  The fields of the revision form as \<^verbatim>\<open>formData.get\<close> returns them: a string, or
  \<^verbatim>\<open>null\<close> for a field that was not sent.
\<close>

record RevisionForm =
  rf_declarationId :: "string option"
  rf_changeNote :: "string option"
  rf_intent :: "string option"
  rf_tools :: "string option"
  rf_aiUsed :: "string option"
  rf_contributors :: "string option"

text \<open>
  What a server action returns: \<^verbatim>\<open>{ error }\<close>, \<^verbatim>\<open>{ success: true }\<close>, or it leaves through
  \<^verbatim>\<open>redirect(path)\<close>.
\<close>

datatype ActionResult = ActionError string | ActionSuccess | ActionRedirect string

definition createRevision :: "Env \<Rightarrow> RevisionForm \<Rightarrow> db \<Rightarrow> ActionResult \<times> db" where
  "createRevision env formData d =
     (let aiUsedValue = rf_aiUsed formData;
          aiUsed = (if aiUsedValue = Some ''true'' then Some True
                    else if aiUsedValue = Some ''false'' then Some False else None)
      in case rf_declarationId formData of
           None \<Rightarrow> (ActionError ''Declaration ID is required'', d)
         | Some declarationId \<Rightarrow>
             if declarationId = [] then (ActionError ''Declaration ID is required'', d)
             else case rf_changeNote formData of
               None \<Rightarrow> (ActionError ''Change note is required'', d)
             | Some changeNote \<Rightarrow>
                 if trim changeNote = [] then (ActionError ''Change note is required'', d)
                 else case find (\<lambda>x. d_id x = declarationId) (declarations d) of
                   None \<Rightarrow> (ActionError ''Declaration not found'', d)
                 | Some declaration \<Rightarrow>
                     (ActionSuccess,
                      d\<lparr>revisions := revisions d @
                          [\<lparr> r_id = newId env 0,
                             r_declarationId = declarationId,
                             r_createdAt = now env,
                             r_changeNote = trim changeNote,
                             r_intent = trimOrNull (rf_intent formData),
                             r_tools = trimOrNull (rf_tools formData),
                             r_aiUsed = aiUsed,
                             r_contributors = trimOrNull (rf_contributors formData) \<rparr>]\<rparr>))"

subsection \<open>Hashing audio files\<close>

unbundle bit_operations_syntax

type_synonym byte = "8 word"
type_synonym word32 = "32 word"

text \<open>
  \<^verbatim>\<open>createHash('sha256').update(buffer).digest('hex')\<close>: the SHA-256 function of the
  platform's \<^verbatim>\<open>crypto\<close> module, written out after FIPS 180-4 on 32-bit words, and the
  digest printed as lower-case hexadecimal digits, two for each byte.
\<close>

definition rotr :: "nat \<Rightarrow> word32 \<Rightarrow> word32" where
  "rotr n x = drop_bit n x OR push_bit (32 - n) x"

definition Ch :: "word32 \<Rightarrow> word32 \<Rightarrow> word32 \<Rightarrow> word32" where
  "Ch x y z = (x AND y) XOR (NOT x AND z)"

definition Maj :: "word32 \<Rightarrow> word32 \<Rightarrow> word32 \<Rightarrow> word32" where
  "Maj x y z = (x AND y) XOR (x AND z) XOR (y AND z)"

definition Sigma0 :: "word32 \<Rightarrow> word32" where
  "Sigma0 x = rotr 2 x XOR rotr 13 x XOR rotr 22 x"

definition Sigma1 :: "word32 \<Rightarrow> word32" where
  "Sigma1 x = rotr 6 x XOR rotr 11 x XOR rotr 25 x"

definition sigma0 :: "word32 \<Rightarrow> word32" where
  "sigma0 x = rotr 7 x XOR rotr 18 x XOR drop_bit 3 x"

definition sigma1 :: "word32 \<Rightarrow> word32" where
  "sigma1 x = rotr 17 x XOR rotr 19 x XOR drop_bit 10 x"

text \<open>
  The sixty-four round constants and the initial hash value of FIPS 180-4 (sections 4.2.2
  and 5.3.3), written in decimal.
\<close>

definition K256 :: "word32 list" where
  "K256 =
     [
      1116352408, 1899447441, 3049323471, 3921009573, 961987163, 1508970993,
      2453635748, 2870763221, 3624381080, 310598401, 607225278, 1426881987,
      1925078388, 2162078206, 2614888103, 3248222580, 3835390401, 4022224774,
      264347078, 604807628, 770255983, 1249150122, 1555081692, 1996064986,
      2554220882, 2821834349, 2952996808, 3210313671, 3336571891, 3584528711,
      113926993, 338241895, 666307205, 773529912, 1294757372, 1396182291,
      1695183700, 1986661051, 2177026350, 2456956037, 2730485921, 2820302411,
      3259730800, 3345764771, 3516065817, 3600352804, 4094571909, 275423344,
      430227734, 506948616, 659060556, 883997877, 958139571, 1322822218,
      1537002063, 1747873779, 1955562222, 2024104815, 2227730452, 2361852424,
      2428436474, 2756734187, 3204031479, 3329325298]"

type_synonym sha_state =
  "word32 \<times> word32 \<times> word32 \<times> word32 \<times> word32 \<times> word32 \<times> word32 \<times> word32"

definition H256 :: sha_state where
  "H256 = (1779033703, 3144134277, 1013904242, 2773480762,
           1359893119, 2600822924, 528734635, 1541459225)"

text \<open>
  Padding: the byte \<open>0x80\<close>, zero bytes up to 56 modulo 64, and the length of the message
  in bits as eight bytes, most significant first.
\<close>

definition length_bytes :: "nat \<Rightarrow> byte list" where
  "length_bytes n =
     (let bits = (of_nat n * 8 :: 64 word)
      in map (\<lambda>i. ucast (drop_bit (8 * (7 - i)) bits)) [0..<8])"

definition sha_pad :: "byte list \<Rightarrow> byte list" where
  "sha_pad msg =
     msg @ [0x80] @ replicate ((55 + 64 - length msg mod 64) mod 64) 0
         @ length_bytes (length msg)"

definition be_word :: "byte list \<Rightarrow> word32" where
  "be_word bs = foldl (\<lambda>w b. push_bit 8 w OR ucast b) 0 bs"

definition block_words :: "byte list \<Rightarrow> word32 list" where
  "block_words block = map (\<lambda>i. be_word (take 4 (drop (4 * i) block))) [0..<16]"

text \<open>The message schedule: the sixteen words of the block, extended to sixty-four.\<close>

fun schedule :: "nat \<Rightarrow> word32 list \<Rightarrow> word32 list" where
  "schedule 0 w = w"
| "schedule (Suc n) w =
     (let t = length w
      in schedule n (w @ [sigma1 (w ! (t - 2)) + w ! (t - 7) + sigma0 (w ! (t - 15)) + w ! (t - 16)]))"

definition sha_round :: "sha_state \<Rightarrow> word32 \<times> word32 \<Rightarrow> sha_state" where
  "sha_round s kw =
     (case s of (a, b, c, d, e, f, g, h) \<Rightarrow>
        let t1 = h + Sigma1 e + Ch e f g + fst kw + snd kw;
            t2 = Sigma0 a + Maj a b c
        in (t1 + t2, a, b, c, d + t1, e, f, g))"

definition compress :: "sha_state \<Rightarrow> byte list \<Rightarrow> sha_state" where
  "compress s block =
     (case (s, foldl sha_round s (zip K256 (schedule 48 (block_words block)))) of
        ((a, b, c, d, e, f, g, h), (a', b', c', d', e', f', g', h')) \<Rightarrow>
          (a + a', b + b', c + c', d + d', e + e', f + f', g + g', h + h'))"

definition sha_blocks :: "byte list \<Rightarrow> byte list list" where
  "sha_blocks padded = map (\<lambda>i. take 64 (drop (64 * i) padded)) [0..<length padded div 64]"

definition word_bytes :: "word32 \<Rightarrow> byte list" where
  "word_bytes w = [ucast (drop_bit 24 w), ucast (drop_bit 16 w), ucast (drop_bit 8 w), ucast w]"

definition sha256 :: "byte list \<Rightarrow> byte list" where
  "sha256 msg =
     (case foldl compress H256 (sha_blocks (sha_pad msg)) of
        (a, b, c, d, e, f, g, h) \<Rightarrow> concat (map word_bytes [a, b, c, d, e, f, g, h]))"

definition hexDigit :: "nat \<Rightarrow> char" where
  "hexDigit n = ''0123456789abcdef'' ! (n mod 16)"

definition hexEncode :: "byte list \<Rightarrow> string" where
  "hexEncode bs = concat (map (\<lambda>b. [hexDigit (unat b div 16), hexDigit (unat b mod 16)]) bs)"

definition computeSha256 :: "byte list \<Rightarrow> string" where
  "computeSha256 buffer = hexEncode (sha256 buffer)"

subsection \<open>Creating a work\<close>

text \<open>An uploaded file: its name and its bytes; \<^verbatim>\<open>file.size\<close> is the number of bytes.\<close>

record File =
  f_name :: string
  f_bytes :: "byte list"

record WorkForm =
  wf_title :: "string option"
  wf_intent :: "string option"
  wf_tools :: "string option"
  wf_aiUsed :: "string option"
  wf_contributors :: "string option"
  wf_audioFiles :: "File list"

text \<open>The loop over the uploaded files: a file of size zero is skipped.\<close>

fun audioRefData :: "File list \<Rightarrow> (string \<times> string) list" where
  "audioRefData [] = []"
| "audioRefData (file # rest) =
     (if length (f_bytes file) > 0
      then (f_name file, computeSha256 (f_bytes file)) # audioRefData rest
      else audioRefData rest)"

text \<open>
  \<open>createWork\<close>: one nested \<^verbatim>\<open>prisma.work.create\<close> writes the work, its declaration and
  the audio references; the database generates the identifiers (the work's, the
  declaration's, then one for each audio reference).
\<close>

definition createWork :: "Env \<Rightarrow> WorkForm \<Rightarrow> db \<Rightarrow> ActionResult \<times> db" where
  "createWork env formData d =
     (let aiUsed = (wf_aiUsed formData = Some ''true'');
          contributors = wf_contributors formData;
          audioFiles = wf_audioFiles formData
      in if \<not> truthy (optTrim (wf_title formData))
           then (ActionError ''Work title is required'', d)
         else if \<not> truthy (optTrim (wf_intent formData))
           then (ActionError ''Intent statement is required'', d)
         else if \<not> truthy (optTrim (wf_tools formData))
           then (ActionError ''Tools used is required'', d)
         else
           case (wf_title formData, wf_intent formData, wf_tools formData) of
             (Some title, Some intent, Some tools) \<Rightarrow>
               let refs = audioRefData audioFiles;
                   work = \<lparr> w_id = newId env 0, w_title = trim title, w_createdAt = now env \<rparr>;
                   declaration =
                     \<lparr> d_id = newId env 1, d_workId = w_id work, d_createdAt = now env,
                       d_intent = trim intent, d_tools = trim tools, d_aiUsed = aiUsed,
                       d_contributors = trimOrNull contributors \<rparr>;
                   rows = map (\<lambda>(i, (fileName, sha)).
                             \<lparr> a_id = newId env (2 + i), a_declarationId = d_id declaration,
                               a_createdAt = now env, a_fileName = fileName, a_sha256 = sha,
                               a_description = None \<rparr>)
                           (zip [0..<length refs] refs)
               in (ActionRedirect (''/work/'' @ w_id work),
                   d\<lparr> works := works d @ [work],
                      declarations := declarations d @ [declaration],
                      audioRefs := audioRefs d @ rows \<rparr>)
           | _ \<Rightarrow> (ActionError ''Work title is required'', d))"

text \<open>
  \<open>getWork\<close>: the work, its declaration, and the declaration's revisions and audio
  references \<^verbatim>\<open>orderBy: { createdAt: 'asc' }\<close> (rows of equal time in insertion order; the
  database leaves their order open).
\<close>

definition getWork ::
  "db \<Rightarrow> string
    \<Rightarrow> (Work \<times> (Declaration \<times> DeclarationRevision list \<times> AudioReference list) option) option" where
  "getWork d ident =
     (case find (\<lambda>w. w_id w = ident) (works d) of
        None \<Rightarrow> None
      | Some work \<Rightarrow>
          Some (work,
            case find (\<lambda>x. d_workId x = w_id work) (declarations d) of
              None \<Rightarrow> None
            | Some declaration \<Rightarrow>
                Some (declaration,
                      sort_key r_createdAt
                        (filter (\<lambda>r. r_declarationId r = d_id declaration) (revisions d)),
                      sort_key a_createdAt
                        (filter (\<lambda>a. a_declarationId a = d_id declaration) (audioRefs d)))))"

section \<open>\<^verbatim>\<open>src/app/api/process-declaration/route.ts\<close>: the ingestion endpoint\<close>

record Response =
  status :: nat
  success :: bool
  resp_id :: "string option"
  resp_reward :: "ContributorReward option"
  resp_error :: "string option"

definition errorResponse :: "nat \<Rightarrow> string \<Rightarrow> Response" where
  "errorResponse code message =
     \<lparr> status = code, success = False, resp_id = None, resp_reward = None,
       resp_error = Some message \<rparr>"

text \<open>\<^verbatim>\<open>message.includes(part)\<close>.\<close>

fun str_includes :: "string \<Rightarrow> string \<Rightarrow> bool" where
  "str_includes [] part = (part = [])"
| "str_includes (c # cs) part = (if prefix part (c # cs) then True else str_includes cs part)"

text \<open>
  The session duration that is stored: the one sent, or, when none (or zero) was sent and
  an end time was, \<^verbatim>\<open>Math.round((endTime - startTime) / 1000)\<close>.
\<close>

definition storedSessionDuration ::
  "Env \<Rightarrow> ProcessDeclarationInput \<Rightarrow> string \<Rightarrow> num_or_nan option" where
  "storedSessionDuration env input started =
     (case in_sessionEndedAt input of
        None \<Rightarrow> map_option Num (in_sessionDuration input)
      | Some ended \<Rightarrow>
          if \<not> truthyNum (in_sessionDuration input) \<and> ended \<noteq> []
          then (case (newDate (parseDate env) started, newDate (parseDate env) ended) of
                  (Date startTime, Date endTime) \<Rightarrow>
                    Some (Num (of_int (Math_round
                      (fdiv (fsub (of_int endTime) (of_int startTime)) 1000))))
                | _ \<Rightarrow> Some NaN)
          else map_option Num (in_sessionDuration input))"

text \<open>The row that \<^verbatim>\<open>prisma.processDeclaration.create\<close> is asked to insert.\<close>

definition processDeclarationRow ::
  "Env \<Rightarrow> ProcessDeclarationInput \<Rightarrow> string \<Rightarrow> string \<Rightarrow> PromptVersion list
    \<Rightarrow> RejectedOutput list \<Rightarrow> ProcessDeclaration" where
  "processDeclarationRow env input platformName started lineage rejected =
     \<lparr> pd_id = newId env 1,
       pd_platform = mapPlatformToEnum platformName,
       pd_sessionStartedAt = newDate (parseDate env) started,
       pd_sessionEndedAt =
         (case in_sessionEndedAt input of
            None \<Rightarrow> None
          | Some ended \<Rightarrow> if ended \<noteq> [] then Some (newDate (parseDate env) ended) else None),
       pd_sessionDuration = storedSessionDuration env input started,
       pd_iterationCount =
         (case in_iterationCount input of
            None \<Rightarrow> of_nat (length lineage)
          | Some n \<Rightarrow> if n \<noteq> 0 then n else of_nat (length lineage)),
       pd_promptLineage = lineage,
       pd_rejectedOutputs = rejected,
       pd_selectedOutput = in_selectedOutput input,
       pd_consentForTrainingData = in_consentForTrainingData input,
       pd_consentTimestamp =
         (case in_consentTimestamp input of
            None \<Rightarrow> None
          | Some ts \<Rightarrow> if ts \<noteq> [] then Some (newDate (parseDate env) ts) else None),
       pd_consentVersion = in_consentVersion input,
       pd_contributorId = in_contributorId input,
       pd_contributorExpertiseTags =
         (case in_expertiseTags input of None \<Rightarrow> [] | Some tags \<Rightarrow> tags) \<rparr>"

text \<open>
  The reward step: only with a contributor identifier and consent; an exception of the
  reward calculation is logged and dropped, and \<^verbatim>\<open>reward\<close> stays \<^verbatim>\<open>undefined\<close>.
\<close>

definition rewardStep ::
  "Env \<Rightarrow> ProcessDeclarationInput \<Rightarrow> string \<Rightarrow> db \<Rightarrow> ContributorReward option \<times> db" where
  "rewardStep env input processDeclarationId d1 =
     (case in_contributorId input of
        None \<Rightarrow> (None, d1)
      | Some contributorId \<Rightarrow>
          if contributorId \<noteq> [] \<and> in_consentForTrainingData input
          then (case calculateContributionReward env contributorId processDeclarationId input d1 of
                  (Inl rewardError, d') \<Rightarrow> (None, d')
                | (Inr reward, d') \<Rightarrow> (Some reward, d'))
          else (None, d1))"

text \<open>
  \<open>POST\<close>. The request body is the parsed payload, or nothing when it is not JSON. An
  exception of the insert reaches the outer \<^verbatim>\<open>catch\<close>, which answers 409 for a message
  with \<^verbatim>\<open>Unique constraint\<close> in it and 500 otherwise; so does the \<^verbatim>\<open>TypeError\<close> of reading
  a property that validation has shown to be there.
\<close>

definition POST :: "Env \<Rightarrow> ProcessDeclarationInput option \<Rightarrow> db \<Rightarrow> Response \<times> db" where
  "POST env body d =
     (case body of
        None \<Rightarrow> (errorResponse 400 ''Invalid JSON in request body'', d)
      | Some input \<Rightarrow>
        case validateProcessInput (parseDate env) input of
          Invalid e \<Rightarrow> (errorResponse 400 e, d)
        | Valid \<Rightarrow>
          case (in_platform input, in_sessionStartedAt input,
                in_promptLineage input, in_rejectedOutputs input) of
            (Some platformName, Some started, Some lineage, Some rejected) \<Rightarrow>
              (case declarationCreateThrows env of
                 Some message \<Rightarrow>
                   if str_includes message ''Unique constraint''
                   then (errorResponse 409 ''Duplicate declaration'', d)
                   else (errorResponse 500 ''Failed to create process declaration'', d)
               | None \<Rightarrow>
                   let processDeclaration =
                         processDeclarationRow env input platformName started lineage rejected;
                       d1 = d\<lparr>processDeclarations := processDeclarations d @ [processDeclaration]\<rparr>;
                       (reward, d2) = rewardStep env input (pd_id processDeclaration) d1
                   in (\<lparr> status = 201, success = True,
                         resp_id = Some (pd_id processDeclaration),
                         resp_reward = reward, resp_error = None \<rparr>, d2))
          | _ \<Rightarrow> (errorResponse 500 ''Failed to create process declaration'', d))"

text \<open>A sequence of revision requests, each with its own environment, run one after the other.\<close>

fun createRevisions :: "(Env \<times> RevisionForm) list \<Rightarrow> db \<Rightarrow> db" where
  "createRevisions [] d = d"
| "createRevisions ((env, formData) # ops) d =
     createRevisions ops (snd (createRevision env formData d))"

section \<open>Notions used to state the properties\<close>

text \<open>
  The contributor state a reward is computed from: the stored row, or the row that is
  created for an identifier seen for the first time.
\<close>

definition priorContributor :: "Env \<Rightarrow> string \<Rightarrow> ProcessDeclarationInput \<Rightarrow> db \<Rightarrow> Contributor" where
  "priorContributor env contributorId input d =
     (case findContributor d contributorId of
        Some contributor \<Rightarrow> contributor
      | None \<Rightarrow> newContributor env contributorId input)"

text \<open>The reward record that \<open>rewardAndUpdate\<close> returns, as a function of what it reads.\<close>

definition rewardOf :: "ProcessDeclarationInput \<Rightarrow> string \<Rightarrow> int \<Rightarrow> Contributor \<Rightarrow> ContributorReward" where
  "rewardOf input platformName basePoints contributor =
     (let qm = fadd (1 / 2) (c_tasteScore contributor);
          rb = rarityBonusOf (mapPlatformToEnum platformName);
          pts = Math_round (fmul (fmul (of_int basePoints) qm) rb);
          total = c_totalPoints contributor + pts
      in \<lparr> pointsEarned = pts, newTotal = total,
           tierChange = (if calculateTier total \<noteq> c_currentTier contributor
                         then Some (c_currentTier contributor, calculateTier total) else None),
           qualityMultiplier = qm, rarityBonus = rb \<rparr>)"



section \<open>Example values\<close>

text \<open>A small database, an environment and a revision form, for the concrete instances below.\<close>

definition example_env :: Env where
  "example_env =
     \<lparr> parseDate = (\<lambda>s. if s = ''2025-01-01T00:00:00.000Z'' then Some 1735689600000 else None),
       now = 1735689600000,
       newId = (\<lambda>k. ''id-'' @ string_of_nat k),
       declarationCreateThrows = None,
       contributorFindThrows = False,
       contributorCreateThrows = False,
       contributorUpdateThrows = False \<rparr>"

definition example_work :: Work where
  "example_work = \<lparr> w_id = ''w1'', w_title = ''Night Drive'', w_createdAt = 1000 \<rparr>"

definition example_declaration :: Declaration where
  "example_declaration =
     \<lparr> d_id = ''d1'', d_workId = ''w1'', d_createdAt = 1000, d_intent = ''A late-night synth sketch'',
       d_tools = ''Ableton Live'', d_aiUsed = False, d_contributors = None \<rparr>"

definition example_db :: db where
  "example_db =
     \<lparr> works = [example_work], declarations = [example_declaration], revisions = [],
       audioRefs = [], processDeclarations = [], contributors = [] \<rparr>"

definition example_revision_form :: RevisionForm where
  "example_revision_form =
     \<lparr> rf_declarationId = Some ''d1'', rf_changeNote = Some '' added a collaborator '',
       rf_intent = Some '''', rf_tools = Some ''  '', rf_aiUsed = Some '''',
       rf_contributors = Some ''Sam'' \<rparr>"

text \<open>
  The specification's worked example: five prompt versions, two rejections, a selection
  with a like-reason and feedback, 600 seconds, no tags, platform \<^verbatim>\<open>stable-diffusion\<close>, and
  a contributor whose taste score is 0.5.
\<close>

definition example_version :: "string \<Rightarrow> PromptVersion" where
  "example_version ident =
     \<lparr> pv_id = Some ident, pv_content = Some ''a city at night, neon rain'',
       pv_timestamp = Some ''2025-01-01T00:00:00.000Z'', pv_parentId = None,
       pv_mode = Some ''manual'', pv_platform = Some ''stable-diffusion'' \<rparr>"

definition example_rejection :: "string \<Rightarrow> RejectedOutput" where
  "example_rejection ident =
     \<lparr> ro_id = Some ident, ro_promptVersionId = Some ''v1'',
       ro_timestamp = Some ''2025-01-01T00:00:00.000Z'', ro_reason = Some ''wrong-style'',
       ro_customFeedback = None \<rparr>"

definition example_input :: ProcessDeclarationInput where
  "example_input =
     \<lparr> in_platform = Some ''stable-diffusion'',
       in_sessionStartedAt = Some ''2025-01-01T00:00:00.000Z'',
       in_sessionEndedAt = None,
       in_sessionDuration = Some 600,
       in_iterationCount = Some 5,
       in_promptLineage = Some (map example_version [''v1'', ''v2'', ''v3'', ''v4'', ''v5'']),
       in_rejectedOutputs = Some (map example_rejection [''r1'', ''r2'']),
       in_selectedOutput = Some
         \<lparr> so_id = Some ''s1'', so_promptVersionId = Some ''v5'',
           so_timestamp = Some ''2025-01-01T00:00:00.000Z'', so_likeReason = Some ''great-style'',
           so_customFeedback = Some ''the rain reads as light'', so_outputHash = None \<rparr>,
       in_consentForTrainingData = True,
       in_consentTimestamp = Some ''2025-01-01T00:00:00.000Z'',
       in_consentVersion = Some ''1.0'',
       in_contributorId = Some ''anon-1'',
       in_expertiseTags = None \<rparr>"

definition example_contributor :: Contributor where
  "example_contributor =
     \<lparr> c_id = ''c1'', c_anonymousId = ''anon-1'', c_totalContributions = 0, c_totalPoints = 0,
       c_currentTier = Explorer, c_tasteScore = 1 / 2, c_expertiseTags = [],
       c_platformStats = None, c_consentVersion = None, c_consentTimestamp = None \<rparr>"

definition example_reward_db :: db where
  "example_reward_db =
     \<lparr> works = [], declarations = [], revisions = [], audioRefs = [],
       processDeclarations = [], contributors = [example_contributor] \<rparr>"

text \<open>
  A contributor whose taste score is the binary64 value of \<^verbatim>\<open>0.1\<close>, that is
  \<open>3602879701896397 / 2^55\<close>.
\<close>

definition example_taste :: number where
  "example_taste = 3602879701896397 / 36028797018963968"

definition example_taste_contributor :: Contributor where
  "example_taste_contributor =
     \<lparr> c_id = ''c2'', c_anonymousId = ''anon-2'', c_totalContributions = 3, c_totalPoints = 150,
       c_currentTier = Curator, c_tasteScore = example_taste, c_expertiseTags = [],
       c_platformStats = None, c_consentVersion = None, c_consentTimestamp = None \<rparr>"

definition example_taste_db :: db where
  "example_taste_db =
     \<lparr> works = [], declarations = [], revisions = [], audioRefs = [],
       processDeclarations = [], contributors = [example_taste_contributor] \<rparr>"

text \<open>A work form with two uploads, one of them empty; the other holds the bytes of \<^verbatim>\<open>abc\<close>.\<close>

definition example_work_form :: WorkForm where
  "example_work_form =
     \<lparr> wf_title = Some '' Night Drive '', wf_intent = Some ''A late-night synth sketch'',
       wf_tools = Some ''Ableton Live'', wf_aiUsed = Some ''false'', wf_contributors = Some [],
       wf_audioFiles =
         [\<lparr> f_name = ''empty.wav'', f_bytes = [] \<rparr>,
          \<lparr> f_name = ''stem.wav'', f_bytes = [0x61, 0x62, 0x63] \<rparr>] \<rparr>"

section \<open>Properties\<close>

subsection \<open>Rounding to binary64 is monotone\<close>

lemma ilog2_bounds:
  assumes "0 < x"
  shows "2 powi ilog2 x \<le> x" and "x < 2 powi (ilog2 x + 1)"
proof -
  have "2 powi ilog2 x \<le> x \<and> x < 2 powi (ilog2 x + 1)"
  proof (cases "1 \<le> x")
    case True
    define n where "n = \<lfloor>x\<rfloor>"
    have n1: "1 \<le> n" using True by (simp add: n_def le_floor_iff)
    then have npos: "0 < n" by simp
    have k1: "1 \<le> bitlen n" using npos bitlen_eq_zero_iff[of n] bitlen_nonneg[of n] by linarith
    from bitlen_bounds[OF npos]
    have lo: "(2::int) ^ nat (bitlen n - 1) \<le> n" and hi: "n < (2::int) ^ nat (bitlen n)" by auto
    have "(of_int ((2::int) ^ nat (bitlen n - 1)) :: rat) \<le> of_int n" using lo by (simp only: of_int_le_iff)
    also have "\<dots> \<le> x" by (simp add: n_def)
    finally have a: "(2::rat) ^ nat (bitlen n - 1) \<le> x" by simp
    have "n + 1 \<le> (2::int) ^ nat (bitlen n)" using hi by simp
    then have "(of_int (n + 1) :: rat) \<le> of_int ((2::int) ^ nat (bitlen n))" by (simp only: of_int_le_iff)
    moreover have "x < of_int (n + 1)" unfolding n_def by linarith
    ultimately have b: "x < (2::rat) ^ nat (bitlen n)" by simp
    have e1: "(2::rat) powi (bitlen n - 1) = 2 ^ nat (bitlen n - 1)" using k1 by (simp add: power_int_def)
    have e2: "(2::rat) powi (bitlen n - 1 + 1) = 2 ^ nat (bitlen n)" using k1 by (simp add: power_int_def)
    show ?thesis using True a b e1 e2 by (simp add: ilog2_def n_def)
  next
    case False
    then have x1: "x < 1" by simp
    define y where "y = 1 / x"
    have y1: "1 < y" using assms x1 by (simp add: y_def)
    define n where "n = \<lceil>y\<rceil> - 1"
    have n1: "1 \<le> n" using y1 by (simp add: n_def less_ceiling_iff)
    then have npos: "0 < n" by simp
    have k1: "1 \<le> bitlen n" using npos bitlen_eq_zero_iff[of n] bitlen_nonneg[of n] by linarith
    from bitlen_bounds[OF npos]
    have lo: "(2::int) ^ nat (bitlen n - 1) \<le> n" and hi: "n < (2::int) ^ nat (bitlen n)" by auto
    have ny: "of_int n < y" by (simp add: n_def) (metis ceiling_correct diff_less_eq of_int_1 of_int_diff less_ceiling_iff linorder_not_le order_less_le)
    have yn: "y \<le> of_int (n + 1)" by (simp add: n_def)
    have "(of_int ((2::int) ^ nat (bitlen n - 1)) :: rat) \<le> of_int n" using lo by (simp only: of_int_le_iff)
    then have "(2::rat) ^ nat (bitlen n - 1) \<le> of_int n" by simp
    then have a: "(2::rat) ^ nat (bitlen n - 1) < y" using ny by linarith
    have "n + 1 \<le> (2::int) ^ nat (bitlen n)" using hi by simp
    then have "(of_int (n + 1) :: rat) \<le> of_int ((2::int) ^ nat (bitlen n))" by (simp only: of_int_le_iff)
    then have b: "y \<le> (2::rat) ^ nat (bitlen n)" using yn by simp
    have xy: "x = 1 / y" by (simp add: y_def)
    have ypos: "0 < y" using y1 by simp
    have e1: "(2::rat) powi (- bitlen n) = 1 / 2 ^ nat (bitlen n)"
      using k1 by (simp add: power_int_def field_simps)
    have e2: "(2::rat) powi (- bitlen n + 1) = 1 / 2 ^ nat (bitlen n - 1)"
    proof -
      have "- bitlen n + 1 = - (bitlen n - 1)" by simp
      then show ?thesis using k1 by (simp only: power_int_minus_divide) (simp add: power_int_def)
    qed
    have c: "1 / 2 ^ nat (bitlen n) \<le> x"
      unfolding xy using b ypos by (simp add: field_simps)
    have d: "x < 1 / 2 ^ nat (bitlen n - 1)"
      unfolding xy using a ypos by (simp add: field_simps)
    show ?thesis using False c d e1 e2 by (simp add: ilog2_def n_def y_def)
  qed
  then show "2 powi ilog2 x \<le> x" and "x < 2 powi (ilog2 x + 1)" by auto
qed

lemma ilog2_mono:
  assumes "0 < x" "x \<le> y"
  shows "ilog2 x \<le> ilog2 y"
proof -
  have "0 < y" using assms by simp
  have "(2::rat) powi ilog2 x \<le> x" using ilog2_bounds(1)[OF assms(1)] .
  also have "\<dots> \<le> y" by fact
  also have "\<dots> < 2 powi (ilog2 y + 1)" using ilog2_bounds(2)[OF \<open>0 < y\<close>] .
  finally have lt: "(2::rat) powi ilog2 x < 2 powi (ilog2 y + 1)" .
  show ?thesis
  proof (rule ccontr)
    assume "\<not> ilog2 x \<le> ilog2 y"
    then have "ilog2 y + 1 \<le> ilog2 x" by simp
    then have "(2::rat) powi (ilog2 y + 1) \<le> 2 powi ilog2 x"
      by (rule power_int_increasing) simp
    then show False using lt by simp
  qed
qed

lemma round_half_even_err: "\<bar>of_int (round_half_even x) - x\<bar> \<le> 1 / 2"
proof -
  have "of_int \<lfloor>x\<rfloor> \<le> x" "x < of_int \<lfloor>x\<rfloor> + 1" by linarith+
  then show ?thesis by (auto simp: round_half_even_def Let_def)
qed

lemma round_half_even_of_int [simp]: "round_half_even (of_int n) = n"
  by (simp add: round_half_even_def)

lemma round_half_even_mono:
  assumes "x \<le> y"
  shows "round_half_even x \<le> round_half_even y"
proof (rule ccontr)
  assume "\<not> ?thesis"
  then have gt: "round_half_even y + 1 \<le> round_half_even x" by simp
  then have "(of_int (round_half_even y + 1) :: rat) \<le> of_int (round_half_even x)"
    by (simp only: of_int_le_iff)
  then have g: "(of_int (round_half_even y) :: rat) + 1 \<le> of_int (round_half_even x)" by simp
  have ex: "of_int (round_half_even x) \<le> x + 1 / 2" using round_half_even_err[of x] by linarith
  have ey: "y - 1 / 2 \<le> of_int (round_half_even y)" using round_half_even_err[of y] by linarith
  have "x = y" using g ex ey assms by linarith
  then show False using gt by simp
qed

lemma round_half_even_ge: "of_int n \<le> x \<Longrightarrow> n \<le> round_half_even x"
  using round_half_even_mono[of "of_int n" x] by (simp only: round_half_even_of_int)

lemma round_half_even_le: "x \<le> of_int n \<Longrightarrow> round_half_even x \<le> n"
  using round_half_even_mono[of x "of_int n"] by (simp only: round_half_even_of_int)

lemma fl_pos:
  assumes "0 < x"
  shows "fl x = of_int (round_half_even (x / 2 powi max (ilog2 x - 52) (- 1074))) * 2 powi max (ilog2 x - 52) (- 1074)"
  using assms by (simp add: fl_def Let_def)

lemma fl_neg: "fl (- x) = - fl x"
  by (simp add: fl_def Let_def sgn_minus)

lemma fl_nonneg:
  assumes "0 \<le> x"
  shows "0 \<le> fl x"
proof (cases "x = 0")
  case True
  then show ?thesis by (simp add: fl_def)
next
  case False
  then have xp: "0 < x" using assms by simp
  define e where "e = max (ilog2 x - 52) (- 1074)"
  have "0 \<le> x / 2 powi e" using xp by simp
  then have "0 \<le> round_half_even (x / 2 powi e)"
    by (intro round_half_even_ge) simp
  then show ?thesis unfolding fl_pos[OF xp] e_def[symmetric] by simp
qed

lemma fl_mono_pos:
  assumes xp: "0 < x" and xy: "x \<le> y"
  shows "fl x \<le> fl y"
proof -
  have yp: "0 < y" using assms by simp
  define ex where "ex = max (ilog2 x - 52) (- 1074)"
  define ey where "ey = max (ilog2 y - 52) (- 1074)"
  have le: "ex \<le> ey" using ilog2_mono[OF xp xy] by (simp add: ex_def ey_def)
  have fx: "fl x = of_int (round_half_even (x / 2 powi ex)) * 2 powi ex"
    unfolding ex_def by (rule fl_pos[OF xp])
  have fy: "fl y = of_int (round_half_even (y / 2 powi ey)) * 2 powi ey"
    unfolding ey_def by (rule fl_pos[OF yp])
  show ?thesis
  proof (cases "ex = ey")
    case True
    have "x / 2 powi ey \<le> y / 2 powi ey" using xy by (simp add: divide_right_mono)
    then have "round_half_even (x / 2 powi ey) \<le> round_half_even (y / 2 powi ey)"
      by (rule round_half_even_mono)
    then have "(of_int (round_half_even (x / 2 powi ey)) :: rat) \<le> of_int (round_half_even (y / 2 powi ey))"
      by (simp only: of_int_le_iff)
    then show ?thesis unfolding fx fy True by (simp add: mult_right_mono)
  next
    case False
    then have lt: "ex < ey" using le by simp
    then have eyd: "ey = ilog2 y - 52" by (auto simp: ey_def ex_def max_def split: if_splits)
    have exd: "ilog2 x - 52 \<le> ex" by (simp add: ex_def)
    \<comment> \<open>the larger argument rounds to at least \<open>2^52\<close> units\<close>
    have "(2::rat) powi (ey + 52) \<le> y" using ilog2_bounds(1)[OF yp] by (simp add: eyd)
    then have "(2::rat) powi 52 * 2 powi ey \<le> y" by (simp add: power_int_add mult.commute)
    then have "(2::rat) powi 52 \<le> y / 2 powi ey" by (simp add: pos_le_divide_eq)
    then have "(of_int (2 ^ 52) :: rat) \<le> y / 2 powi ey" by simp
    then have "(2::int) ^ 52 \<le> round_half_even (y / 2 powi ey)"
      by (rule round_half_even_ge)
    then have "(of_int ((2::int) ^ 52) :: rat) \<le> of_int (round_half_even (y / 2 powi ey))"
      by (simp only: of_int_le_iff)
    then have "(2::rat) powi 52 * 2 powi ey \<le> fl y" unfolding fy by (simp add: mult_right_mono)
    then have ylow: "(2::rat) powi (ey + 52) \<le> fl y" by (simp add: power_int_add mult.commute)
    \<comment> \<open>the smaller argument rounds to at most \<open>2^53\<close> units\<close>
    have "x < 2 powi (ilog2 x + 1)" using ilog2_bounds(2)[OF xp] .
    also have "\<dots> \<le> 2 powi (ex + 53)" using exd by (intro power_int_increasing) simp_all
    finally have "x < (2::rat) powi 53 * 2 powi ex" by (simp add: power_int_add mult.commute)
    then have "x / 2 powi ex \<le> 2 powi 53" by (simp add: pos_divide_le_eq less_imp_le)
    then have "x / 2 powi ex \<le> of_int (2 ^ 53)" by simp
    then have "round_half_even (x / 2 powi ex) \<le> (2::int) ^ 53"
      by (rule round_half_even_le)
    then have "(of_int (round_half_even (x / 2 powi ex)) :: rat) \<le> of_int ((2::int) ^ 53)"
      by (simp only: of_int_le_iff)
    then have "fl x \<le> (2::rat) powi 53 * 2 powi ex" unfolding fx by (simp add: mult_right_mono)
    then have "fl x \<le> (2::rat) powi (ex + 53)" by (simp add: power_int_add mult.commute)
    also have "\<dots> \<le> 2 powi (ey + 52)" using lt by (intro power_int_increasing) simp_all
    finally show ?thesis using ylow by simp
  qed
qed

lemma fl_zero [simp]: "fl 0 = 0"
  by (simp add: fl_def)

lemma fl_mono:
  assumes "x \<le> y"
  shows "fl x \<le> fl y"
proof -
  consider "0 < x" | "x \<le> 0" "0 \<le> y" | "y < 0" using assms by linarith
  then show ?thesis
  proof cases
    case 1
    then show ?thesis using assms by (rule fl_mono_pos)
  next
    case 2
    have "fl x = - fl (- x)" by (simp add: fl_neg)
    moreover have "0 \<le> fl (- x)" using 2 by (intro fl_nonneg) simp
    moreover have "0 \<le> fl y" using 2 by (intro fl_nonneg)
    ultimately show ?thesis by simp
  next
    case 3
    have "fl (- y) \<le> fl (- x)" using 3 assms by (intro fl_mono_pos) simp_all
    then show ?thesis by (simp add: fl_neg)
  qed
qed

subsection \<open>Tiers\<close>

lemma calculateTier_cases:
  "calculateTier p =
     (if p < 100 then Explorer else if p < 500 then Curator
      else if p < 2000 then Tastemaker else Oracle)"
  by (simp add: calculateTier_def tier_min_def)

text \<open>
  Claim C4. For every non-negative total, \<open>calculateTier\<close> gives explorer on \<open>[0, 100)\<close>,
  curator on \<open>[100, 500)\<close>, tastemaker on \<open>[500, 2000)\<close> and oracle from 2000 on; in
  particular 99 is explorer, 100 and 499 are curator, 500 and 1999 are tastemaker and
  2000 is oracle.
\<close>

theorem calculateTier_thresholds:
  assumes "0 \<le> p"
  shows "(calculateTier p = Explorer \<longleftrightarrow> p < 100)
       \<and> (calculateTier p = Curator \<longleftrightarrow> 100 \<le> p \<and> p < 500)
       \<and> (calculateTier p = Tastemaker \<longleftrightarrow> 500 \<le> p \<and> p < 2000)
       \<and> (calculateTier p = Oracle \<longleftrightarrow> 2000 \<le> p)
       \<and> calculateTier 99 = Explorer \<and> calculateTier 100 = Curator
       \<and> calculateTier 499 = Curator \<and> calculateTier 500 = Tastemaker
       \<and> calculateTier 1999 = Tastemaker \<and> calculateTier 2000 = Oracle"
  by (simp add: calculateTier_cases)

theorem calculateTier_thresholds_witness:
  "(0::int) \<le> 499 \<and> calculateTier 499 = Curator \<and> calculateTier 2000 = Oracle"
  using calculateTier_thresholds [of 499] by simp

subsection \<open>Platforms\<close>

lemma toLowerChar_idem: "toLowerChar (toLowerChar c) = toLowerChar c"
  by (simp add: toLowerChar_def Let_def)

lemma toLowerCase_idem: "toLowerCase (toLowerCase s) = toLowerCase s"
  by (simp add: toLowerCase_def toLowerChar_idem)

text \<open>A platform name that matches an entry of the table in any letter case is mapped to it.\<close>

lemma mapPlatformToEnum_known:
  assumes "map_of platformMap (toLowerCase p) = Some v"
  shows "mapPlatformToEnum p = Str v"
proof -
  have "v \<noteq> []" using assms by (auto simp: platformMap_def split: if_splits)
  then show ?thesis using assms by (simp add: mapPlatformToEnum_def js_get_def)
qed

text \<open>
  Of the names \<^verbatim>\<open>Object.prototype\<close> answers, a lower-cased key can only be
  \<^verbatim>\<open>constructor\<close> or \<^verbatim>\<open>__proto__\<close>: the others contain a capital letter.
\<close>

lemma lower_proto_keys:
  assumes "toLowerCase p \<in> set objectPrototypeKeys"
  shows "toLowerCase p = ''constructor'' \<or> toLowerCase p = ''__proto__''"
proof -
  have idem: "toLowerCase (toLowerCase p) = toLowerCase p" by (rule toLowerCase_idem)
  have "\<forall>k \<in> set objectPrototypeKeys. toLowerCase k = k \<longrightarrow> k = ''constructor'' \<or> k = ''__proto__''"
    by code_simp
  then show ?thesis using assms idem by blast
qed

text \<open>Every other name that matches no entry is mapped to \<^verbatim>\<open>'UNKNOWN'\<close>, whose bonus is 1.0.\<close>

lemma mapPlatformToEnum_unknown:
  assumes "map_of platformMap (toLowerCase p) = None"
    and "toLowerCase p \<noteq> ''constructor''" and "toLowerCase p \<noteq> ''__proto__''"
  shows "mapPlatformToEnum p = Str ''UNKNOWN''"
  using assms lower_proto_keys[of p] by (auto simp: mapPlatformToEnum_def js_get_def)

lemma rarityBonusOf_unknown: "rarityBonusOf (Str ''UNKNOWN'') = 1"
  by code_simp

lemma mapPlatformToEnum_examples:
  "mapPlatformToEnum ''Stable-Diffusion'' = Str ''STABLE_DIFFUSION''
   \<and> mapPlatformToEnum ''MIDJOURNEY'' = Str ''MIDJOURNEY''
   \<and> mapPlatformToEnum ''photoshop'' = Str ''UNKNOWN''"
  by code_simp

text \<open>
  Claim C6 says that every input outside the twelve platform names is mapped to
  \<^verbatim>\<open>'UNKNOWN'\<close>. The names \<^verbatim>\<open>constructor\<close> and \<^verbatim>\<open>__proto__\<close> (in any letter case) are
  outside the twelve, and \<open>mapPlatformToEnum\<close> returns for them what the table object
  inherits from \<^verbatim>\<open>Object.prototype\<close>: a function and an object, not \<^verbatim>\<open>'UNKNOWN'\<close> and not
  a string at all.
\<close>

theorem mapPlatformToEnum_constructor:
  "mapPlatformToEnum ''constructor'' = ProtoMember ''constructor''
   \<and> mapPlatformToEnum ''Constructor'' = ProtoMember ''constructor''
   \<and> mapPlatformToEnum ''__proto__'' = ProtoMember ''__proto__''
   \<and> mapPlatformToEnum ''constructor'' \<noteq> Str ''UNKNOWN''"
  by code_simp

subsection \<open>The declaration ledger\<close>

lemma createRevision_frame:
  "works (snd (createRevision env f d)) = works d
   \<and> declarations (snd (createRevision env f d)) = declarations d
   \<and> audioRefs (snd (createRevision env f d)) = audioRefs d
   \<and> processDeclarations (snd (createRevision env f d)) = processDeclarations d
   \<and> contributors (snd (createRevision env f d)) = contributors d
   \<and> prefix (revisions d) (revisions (snd (createRevision env f d)))"
  by (simp add: createRevision_def Let_def split: option.splits)

lemma createRevisions_frame:
  "works (createRevisions ops d) = works d
   \<and> declarations (createRevisions ops d) = declarations d
   \<and> audioRefs (createRevisions ops d) = audioRefs d
   \<and> prefix (revisions d) (revisions (createRevisions ops d))"
proof (induction ops arbitrary: d)
  case Nil
  then show ?case by simp
next
  case (Cons op ops)
  obtain env f where op: "op = (env, f)" by (cases op)
  let ?d1 = "snd (createRevision env f d)"
  from Cons.IH[of ?d1] createRevision_frame[of env f d]
  show ?case unfolding op by (auto intro: prefix_order.trans)
qed

text \<open>
  Claim C2. Whatever sequence of \<open>createRevision\<close> requests is run, \<open>getWork\<close> returns
  the same work and the same declaration record (its intent, tools, AI flag and
  contributors are fields of that record), every revision that was returned before is
  still returned, the table of revisions has only grown at its end, and the revisions
  come back in non-decreasing order of creation time.
\<close>

theorem revisions_append_only:
  assumes "getWork d ident = Some (work, Some (declaration, revs, audio))"
  shows "\<exists>revs'. getWork (createRevisions ops d) ident = Some (work, Some (declaration, revs', audio))
           \<and> mset revs \<subseteq># mset revs'
           \<and> sorted (map r_createdAt revs')
           \<and> declarations (createRevisions ops d) = declarations d
           \<and> prefix (revisions d) (revisions (createRevisions ops d))"
proof -
  let ?d' = "createRevisions ops d"
  from createRevisions_frame[of ops d]
  have w: "works ?d' = works d" and dc: "declarations ?d' = declarations d"
    and au: "audioRefs ?d' = audioRefs d" and pre: "prefix (revisions d) (revisions ?d')"
    by auto
  from pre obtain extra where ex: "revisions ?d' = revisions d @ extra"
    by (auto simp: prefix_def)
  let ?P = "\<lambda>r. r_declarationId r = d_id declaration"
  from assms have revs: "revs = sort_key r_createdAt (filter ?P (revisions d))"
    by (auto simp: getWork_def split: option.splits)
  let ?revs' = "sort_key r_createdAt (filter ?P (revisions ?d'))"
  from assms have g: "getWork ?d' ident = Some (work, Some (declaration, ?revs', audio))"
    by (auto simp: getWork_def w dc au split: option.splits)
  have "mset revs \<subseteq># mset ?revs'" by (simp add: revs ex)
  moreover have "sorted (map r_createdAt ?revs')" by simp
  ultimately show ?thesis using g dc pre by blast
qed

theorem revisions_append_only_witness:
  "getWork example_db ''w1'' = Some (example_work, Some (example_declaration, [], []))
   \<and> (\<exists>revs'. getWork (createRevisions [(example_env, example_revision_form)] example_db) ''w1''
                 = Some (example_work, Some (example_declaration, revs', []))
        \<and> mset [] \<subseteq># mset revs' \<and> sorted (map r_createdAt revs'))"
proof -
  have h: "getWork example_db ''w1'' = Some (example_work, Some (example_declaration, [], []))"
    by (simp add: getWork_def example_db_def example_work_def example_declaration_def)
  from revisions_append_only[OF h, of "[(example_env, example_revision_form)]"] h
  show ?thesis by blast
qed

text \<open>
  Claim C8. \<open>createRevision\<close> answers \<^verbatim>\<open>Declaration ID is required\<close> when the identifier
  is missing or empty and \<^verbatim>\<open>Change note is required\<close> when the note is missing or blank
  (the two validation errors), and \<^verbatim>\<open>Declaration not found\<close> when no declaration has the
  identifier (the not-found error); whenever it answers an error the database is unchanged.
  When it succeeds, exactly one revision is appended, and its optional intent, tools and
  contributors are never the empty string: an empty input is stored as absent.
\<close>

theorem createRevision_errors:
  "(\<not> truthy (rf_declarationId f) \<longrightarrow>
      createRevision env f d = (ActionError ''Declaration ID is required'', d))
   \<and> (truthy (rf_declarationId f) \<and> \<not> truthy (optTrim (rf_changeNote f)) \<longrightarrow>
      createRevision env f d = (ActionError ''Change note is required'', d))
   \<and> (truthy (rf_declarationId f) \<and> truthy (optTrim (rf_changeNote f))
       \<and> (\<forall>x \<in> set (declarations d). Some (d_id x) \<noteq> rf_declarationId f) \<longrightarrow>
      createRevision env f d = (ActionError ''Declaration not found'', d))
   \<and> (\<forall>message d'. createRevision env f d = (ActionError message, d') \<longrightarrow> d' = d)
   \<and> (\<forall>d'. createRevision env f d = (ActionSuccess, d') \<longrightarrow>
        (\<exists>r. d' = d\<lparr>revisions := revisions d @ [r]\<rparr>
           \<and> r_intent r \<noteq> Some [] \<and> r_tools r \<noteq> Some [] \<and> r_contributors r \<noteq> Some []
           \<and> (rf_intent f = Some [] \<longrightarrow> r_intent r = None)
           \<and> (rf_tools f = Some [] \<longrightarrow> r_tools r = None)
           \<and> (rf_contributors f = Some [] \<longrightarrow> r_contributors r = None)))"
proof -
  have nn: "\<And>v. trimOrNull v \<noteq> Some []"
    by (auto simp: trimOrNull_def truthy_def optTrim_def split: option.splits)
  have ee: "trimOrNull (Some []) = None"
    by (simp add: trimOrNull_def truthy_def optTrim_def trim_def)
  have nf: "(\<forall>x \<in> set (declarations d). Some (d_id x) \<noteq> rf_declarationId f) \<Longrightarrow>
            rf_declarationId f = Some i \<Longrightarrow> find (\<lambda>x. d_id x = i) (declarations d) = None" for i
    by (auto simp: find_None_iff)
  show ?thesis
    apply (intro conjI impI allI)
    subgoal by (auto simp: createRevision_def truthy_def Let_def split: option.splits)
    subgoal by (auto simp: createRevision_def truthy_def optTrim_def Let_def split: option.splits)
    subgoal using nf by (auto simp: createRevision_def truthy_def optTrim_def Let_def split: option.splits)
    subgoal by (auto simp: createRevision_def Let_def split: option.splits if_splits)
    subgoal for d'
      by (auto simp: createRevision_def Let_def nn ee split: option.splits if_splits)
    done
qed

theorem createRevision_errors_witness:
  "createRevision example_env (example_revision_form\<lparr>rf_declarationId := None\<rparr>) example_db
     = (ActionError ''Declaration ID is required'', example_db)
   \<and> createRevision example_env (example_revision_form\<lparr>rf_changeNote := Some ''  ''\<rparr>) example_db
     = (ActionError ''Change note is required'', example_db)
   \<and> createRevision example_env (example_revision_form\<lparr>rf_declarationId := Some ''d9''\<rparr>) example_db
     = (ActionError ''Declaration not found'', example_db)
   \<and> (\<exists>r. snd (createRevision example_env example_revision_form example_db)
              = example_db\<lparr>revisions := revisions example_db @ [r]\<rparr>
          \<and> r_intent r = None \<and> r_tools r \<noteq> Some [] \<and> r_contributors r \<noteq> Some [])"
proof -
  let ?f1 = "example_revision_form\<lparr>rf_declarationId := None\<rparr>"
  let ?f2 = "example_revision_form\<lparr>rf_changeNote := Some ''  ''\<rparr>"
  let ?f3 = "example_revision_form\<lparr>rf_declarationId := Some ''d9''\<rparr>"
  have h1: "\<not> truthy (rf_declarationId ?f1)" by (simp add: truthy_def)
  have h2: "truthy (rf_declarationId ?f2) \<and> \<not> truthy (optTrim (rf_changeNote ?f2))"
    by code_simp
  have h3: "truthy (rf_declarationId ?f3) \<and> truthy (optTrim (rf_changeNote ?f3))
            \<and> (\<forall>x \<in> set (declarations example_db). Some (d_id x) \<noteq> rf_declarationId ?f3)"
    by code_simp
  have h4: "fst (createRevision example_env example_revision_form example_db) = ActionSuccess"
    by code_simp
  have h5: "rf_intent example_revision_form = Some []" by (simp add: example_revision_form_def)
  from h4 have h4': "createRevision example_env example_revision_form example_db
      = (ActionSuccess, snd (createRevision example_env example_revision_form example_db))"
    by (simp add: prod_eq_iff)
  note T1 = createRevision_errors[of ?f1 example_env example_db, THEN conjunct1]
  note T2 = createRevision_errors[of ?f2 example_env example_db, THEN conjunct2, THEN conjunct1]
  note T3 = createRevision_errors[of ?f3 example_env example_db,
              THEN conjunct2, THEN conjunct2, THEN conjunct1]
  note T5 = createRevision_errors[of example_revision_form example_env example_db,
              THEN conjunct2, THEN conjunct2, THEN conjunct2, THEN conjunct2]
  have c1: "createRevision example_env ?f1 example_db
              = (ActionError ''Declaration ID is required'', example_db)"
    by (rule mp[OF T1 h1])
  have c2: "createRevision example_env ?f2 example_db
              = (ActionError ''Change note is required'', example_db)"
    by (rule mp[OF T2 h2])
  have c3: "createRevision example_env ?f3 example_db
              = (ActionError ''Declaration not found'', example_db)"
    by (rule mp[OF T3 h3])
  from T5 h4' obtain r where
    "snd (createRevision example_env example_revision_form example_db)
       = example_db\<lparr>revisions := revisions example_db @ [r]\<rparr>"
    "r_intent r \<noteq> Some []" "r_tools r \<noteq> Some []" "r_contributors r \<noteq> Some []"
    "rf_intent example_revision_form = Some [] \<longrightarrow> r_intent r = None"
    by blast
  then have c5: "\<exists>r. snd (createRevision example_env example_revision_form example_db)
              = example_db\<lparr>revisions := revisions example_db @ [r]\<rparr>
          \<and> r_intent r = None \<and> r_tools r \<noteq> Some [] \<and> r_contributors r \<noteq> Some []"
    using h5 by blast
  show ?thesis using c1 c2 c3 c5 by (intro conjI)
qed

subsection \<open>Creating a work\<close>

lemma sha256_length: "length (sha256 msg) = 32"
  by (simp add: sha256_def word_bytes_def split: prod.splits)

lemma hexDigit_lower: "hexDigit n \<in> set ''0123456789abcdef''"
proof -
  have "n mod 16 < length ''0123456789abcdef''" by simp
  then show ?thesis unfolding hexDigit_def by (rule nth_mem)
qed

lemma hexEncode_length: "length (hexEncode bs) = 2 * length bs"
  by (induction bs) (simp_all add: hexEncode_def)

lemma hexEncode_subset:
  assumes "\<And>n. hexDigit n \<in> S"
  shows "set (hexEncode bs) \<subseteq> S"
  using assms by (induction bs) (auto simp: hexEncode_def)

lemma hexEncode_lower: "set (hexEncode bs) \<subseteq> set ''0123456789abcdef''"
  by (rule hexEncode_subset[OF hexDigit_lower])

lemma computeSha256_shape:
  "length (computeSha256 buffer) = 64 \<and> set (computeSha256 buffer) \<subseteq> set ''0123456789abcdef''"
  using hexEncode_lower[of "sha256 buffer"]
  by (simp add: computeSha256_def hexEncode_length sha256_length)

text \<open>The digest of the three bytes of \<^verbatim>\<open>abc\<close> is the one FIPS 180-4 gives as its first example.\<close>

lemma computeSha256_abc:
  "computeSha256 [0x61, 0x62, 0x63]
     = ''ba7816bf8f01cfea414140de5dae2223b00361a396177a9cb410ff61f20015ad''"
  by code_simp

lemma audioRefData_filter:
  "audioRefData files
     = map (\<lambda>file. (f_name file, computeSha256 (f_bytes file)))
         (filter (\<lambda>file. length (f_bytes file) > 0) files)"
  by (induction files) simp_all

lemma createWork_rows:
  "map (\<lambda>r. (a_fileName r, a_sha256 r))
     (map (\<lambda>(i, (fileName, sha)).
             \<lparr> a_id = g i, a_declarationId = did, a_createdAt = t, a_fileName = fileName,
               a_sha256 = sha, a_description = None \<rparr>) (zip [0..<length refs] refs)) = refs"
  by (rule nth_equalityI) (simp_all add: split_beta)

text \<open>
  Claim C3. When title, intent and tools are non-empty after trimming, \<open>createWork\<close> adds
  in one step exactly one work, exactly one declaration that belongs to it, and one audio
  reference for each uploaded file of non-zero size, in the order of the uploads; each
  reference belongs to the new declaration and carries the file's name and the SHA-256
  digest of the file's bytes as 64 lower-case hexadecimal digits. When one of the three
  fields is missing or blank, it answers with a message naming the field (the validation
  error) and the database is unchanged.
\<close>

theorem createWork_creates:
  "(truthy (optTrim (wf_title f)) \<and> truthy (optTrim (wf_intent f)) \<and> truthy (optTrim (wf_tools f))
      \<longrightarrow> (\<exists>work declaration rows.
             createWork env f d
               = (ActionRedirect (''/work/'' @ w_id work),
                  d\<lparr> works := works d @ [work],
                     declarations := declarations d @ [declaration],
                     audioRefs := audioRefs d @ rows \<rparr>)
           \<and> d_workId declaration = w_id work
           \<and> Some (w_title work) = optTrim (wf_title f)
           \<and> Some (d_intent declaration) = optTrim (wf_intent f)
           \<and> Some (d_tools declaration) = optTrim (wf_tools f)
           \<and> length rows = length (filter (\<lambda>file. length (f_bytes file) > 0) (wf_audioFiles f))
           \<and> map (\<lambda>r. (a_fileName r, a_sha256 r)) rows
               = map (\<lambda>file. (f_name file, hexEncode (sha256 (f_bytes file))))
                   (filter (\<lambda>file. length (f_bytes file) > 0) (wf_audioFiles f))
           \<and> (\<forall>r \<in> set rows. a_declarationId r = d_id declaration
                  \<and> length (a_sha256 r) = 64
                  \<and> set (a_sha256 r) \<subseteq> set ''0123456789abcdef'')))
   \<and> (\<not> (truthy (optTrim (wf_title f)) \<and> truthy (optTrim (wf_intent f))
           \<and> truthy (optTrim (wf_tools f)))
      \<longrightarrow> (\<exists>message. createWork env f d = (ActionError message, d)
             \<and> message \<in> {''Work title is required'', ''Intent statement is required'',
                            ''Tools used is required''}))"
proof (intro conjI impI)
  assume ok: "truthy (optTrim (wf_title f)) \<and> truthy (optTrim (wf_intent f))
              \<and> truthy (optTrim (wf_tools f))"
  then obtain title intent tools where
    f: "wf_title f = Some title" "wf_intent f = Some intent" "wf_tools f = Some tools"
    by (auto simp: truthy_def optTrim_def split: option.splits)
  define refs where "refs = audioRefData (wf_audioFiles f)"
  define work where "work = \<lparr> w_id = newId env 0, w_title = trim title, w_createdAt = now env \<rparr>"
  define decl where "decl =
     \<lparr> d_id = newId env 1, d_workId = newId env 0, d_createdAt = now env,
       d_intent = trim intent, d_tools = trim tools, d_aiUsed = (wf_aiUsed f = Some ''true''),
       d_contributors = trimOrNull (wf_contributors f) \<rparr>"
  define rows where "rows = map (\<lambda>(i, (fileName, sha)).
                             \<lparr> a_id = newId env (2 + i), a_declarationId = newId env 1,
                               a_createdAt = now env, a_fileName = fileName, a_sha256 = sha,
                               a_description = None \<rparr>)
                           (zip [0..<length refs] refs)"
  have cw: "createWork env f d
               = (ActionRedirect (''/work/'' @ w_id work),
                  d\<lparr> works := works d @ [work],
                     declarations := declarations d @ [decl],
                     audioRefs := audioRefs d @ rows \<rparr>)"
    using ok f by (simp add: createWork_def Let_def work_def decl_def rows_def refs_def)
  have pairs: "map (\<lambda>r. (a_fileName r, a_sha256 r)) rows = refs"
    unfolding rows_def by (rule createWork_rows)
  have refs': "refs = map (\<lambda>file. (f_name file, hexEncode (sha256 (f_bytes file))))
                        (filter (\<lambda>file. length (f_bytes file) > 0) (wf_audioFiles f))"
    by (simp add: refs_def audioRefData_filter computeSha256_def)
  have len: "length rows = length (filter (\<lambda>file. length (f_bytes file) > 0) (wf_audioFiles f))"
    using arg_cong[OF pairs, of length] by (simp add: refs')
  have each: "\<forall>r \<in> set rows. a_declarationId r = d_id decl
                  \<and> length (a_sha256 r) = 64 \<and> set (a_sha256 r) \<subseteq> set ''0123456789abcdef''"
  proof
    fix r assume r: "r \<in> set rows"
    then have "(a_fileName r, a_sha256 r) \<in> set refs"
      using pairs by (metis (no_types, lifting) image_eqI set_map)
    then have "\<exists>upload :: File. a_sha256 r = computeSha256 (f_bytes upload)"
      by (auto simp: refs' computeSha256_def)
    then obtain upload :: File where "a_sha256 r = computeSha256 (f_bytes upload)"
      by blast
    moreover have "a_declarationId r = d_id decl"
      using r by (auto simp: rows_def decl_def)
    ultimately show "a_declarationId r = d_id decl
                  \<and> length (a_sha256 r) = 64 \<and> set (a_sha256 r) \<subseteq> set ''0123456789abcdef''"
      using computeSha256_shape[of "f_bytes upload"] by simp
  qed
  have fields: "d_workId decl = w_id work" "Some (w_title work) = optTrim (wf_title f)"
    "Some (d_intent decl) = optTrim (wf_intent f)"
    "Some (d_tools decl) = optTrim (wf_tools f)"
    by (simp_all add: work_def decl_def f optTrim_def)
  show "\<exists>work declaration rows.
             createWork env f d
               = (ActionRedirect (''/work/'' @ w_id work),
                  d\<lparr> works := works d @ [work],
                     declarations := declarations d @ [declaration],
                     audioRefs := audioRefs d @ rows \<rparr>)
           \<and> d_workId declaration = w_id work
           \<and> Some (w_title work) = optTrim (wf_title f)
           \<and> Some (d_intent declaration) = optTrim (wf_intent f)
           \<and> Some (d_tools declaration) = optTrim (wf_tools f)
           \<and> length rows = length (filter (\<lambda>file. length (f_bytes file) > 0) (wf_audioFiles f))
           \<and> map (\<lambda>r. (a_fileName r, a_sha256 r)) rows
               = map (\<lambda>file. (f_name file, hexEncode (sha256 (f_bytes file))))
                   (filter (\<lambda>file. length (f_bytes file) > 0) (wf_audioFiles f))
           \<and> (\<forall>r \<in> set rows. a_declarationId r = d_id declaration
                  \<and> length (a_sha256 r) = 64
                  \<and> set (a_sha256 r) \<subseteq> set ''0123456789abcdef'')"
    apply (rule exI[of _ work])
    apply (rule exI[of _ decl])
    apply (rule exI[of _ rows])
    apply (intro conjI)
    apply (rule cw)
    apply (rule fields(1))
    apply (rule fields(2))
    apply (rule fields(3))
    apply (rule fields(4))
    apply (rule len)
    apply (simp only: pairs refs')
    apply (rule each)
    done
next
  assume "\<not> (truthy (optTrim (wf_title f)) \<and> truthy (optTrim (wf_intent f))
           \<and> truthy (optTrim (wf_tools f)))"
  then show "\<exists>message. createWork env f d = (ActionError message, d)
             \<and> message \<in> {''Work title is required'', ''Intent statement is required'',
                            ''Tools used is required''}"
    by (auto simp: createWork_def Let_def)
qed

lemma example_form_ok:
  "truthy (optTrim (wf_title example_work_form)) \<and> truthy (optTrim (wf_intent example_work_form))
   \<and> truthy (optTrim (wf_tools example_work_form))"
  by code_simp

lemma example_form_blank:
  "\<not> truthy (optTrim (wf_title (example_work_form\<lparr>wf_title := Some ''   ''\<rparr>)))"
  by code_simp

theorem createWork_creates_witness:
  "(\<exists>work declaration rows.
      createWork example_env example_work_form example_db
        = (ActionRedirect (''/work/'' @ w_id work),
           example_db\<lparr> works := works example_db @ [work],
                       declarations := declarations example_db @ [declaration],
                       audioRefs := audioRefs example_db @ rows \<rparr>)
      \<and> map (\<lambda>r. (a_fileName r, a_sha256 r)) rows
           = [(''stem.wav'', hexEncode (sha256 [0x61, 0x62, 0x63]))])
   \<and> (\<exists>message. createWork example_env (example_work_form\<lparr>wf_title := Some ''   ''\<rparr>) example_db
                   = (ActionError message, example_db))"
proof -
  note T = createWork_creates[of example_work_form example_env example_db, THEN conjunct1]
  note U = createWork_creates[of "example_work_form\<lparr>wf_title := Some ''   ''\<rparr>"
             example_env example_db, THEN conjunct2]
  have fl: "filter (\<lambda>file. length (f_bytes file) > 0) (wf_audioFiles example_work_form)
              = [\<lparr> f_name = ''stem.wav'', f_bytes = [0x61, 0x62, 0x63] \<rparr>]"
    by (simp add: example_work_form_def)
  from mp[OF T example_form_ok] obtain work decl rows where
    h1: "createWork example_env example_work_form example_db
        = (ActionRedirect (''/work/'' @ w_id work),
           example_db\<lparr> works := works example_db @ [work],
                       declarations := declarations example_db @ [decl],
                       audioRefs := audioRefs example_db @ rows \<rparr>)"
    and h2: "map (\<lambda>r. (a_fileName r, a_sha256 r)) rows
           = map (\<lambda>file. (f_name file, hexEncode (sha256 (f_bytes file))))
               (filter (\<lambda>file. length (f_bytes file) > 0) (wf_audioFiles example_work_form))"
    by blast
  have h2': "map (\<lambda>r. (a_fileName r, a_sha256 r)) rows
           = [(''stem.wav'', hexEncode (sha256 [0x61, 0x62, 0x63]))]"
    unfolding h2 fl by simp
  have a: "\<exists>work declaration rows.
      createWork example_env example_work_form example_db
        = (ActionRedirect (''/work/'' @ w_id work),
           example_db\<lparr> works := works example_db @ [work],
                       declarations := declarations example_db @ [declaration],
                       audioRefs := audioRefs example_db @ rows \<rparr>)
      \<and> map (\<lambda>r. (a_fileName r, a_sha256 r)) rows
           = [(''stem.wav'', hexEncode (sha256 [0x61, 0x62, 0x63]))]"
    apply (rule exI[of _ work])
    apply (rule exI[of _ decl])
    apply (rule exI[of _ rows])
    apply (rule conjI[OF h1 h2'])
    done
  have nb: "\<not> (truthy (optTrim (wf_title (example_work_form\<lparr>wf_title := Some ''   ''\<rparr>)))
              \<and> truthy (optTrim (wf_intent (example_work_form\<lparr>wf_title := Some ''   ''\<rparr>)))
              \<and> truthy (optTrim (wf_tools (example_work_form\<lparr>wf_title := Some ''   ''\<rparr>))))"
    using example_form_blank by blast
  from mp[OF U nb] have b: "\<exists>message. createWork example_env
        (example_work_form\<lparr>wf_title := Some ''   ''\<rparr>) example_db = (ActionError message, example_db)"
    by blast
  show ?thesis using a b by (rule conjI)
qed

subsection \<open>The reward\<close>



lemma calculateBasePoints_ge: "10 \<le> calculateBasePoints input lineage rejected"
  by (auto simp: calculateBasePoints_def Let_def split: option.splits)





lemma find_app:
  "find P (xs @ ys) = (case find P xs of Some x \<Rightarrow> Some x | None \<Rightarrow> find P ys)"
  by (induction xs) auto

lemma getOrCreate_ok:
  assumes "\<not> contributorFindThrows env"
    and "findContributor d cid = None \<longrightarrow> \<not> contributorCreateThrows env"
  shows "\<exists>d1. getOrCreateContributor env cid input d = Inr (priorContributor env cid input d, d1)
              \<and> processDeclarations d1 = processDeclarations d
              \<and> findContributor d1 cid = Some (priorContributor env cid input d)"
  using assms
  by (auto simp: getOrCreateContributor_def priorContributor_def Let_def findContributor_def
        newContributor_def find_app split: option.splits)

lemma find_update_same:
  assumes "find (\<lambda>c. c_anonymousId c = cid) cs = Some c"
    and "\<And>x. c_anonymousId (f x) = c_anonymousId x"
  shows "find (\<lambda>c. c_anonymousId c = cid) (map (\<lambda>x. if c_id x = c_id c then f x else x) cs)
           = Some (f c)"
  using assms by (induction cs) (auto split: if_splits)


lemma rewardAndUpdate_ok:
  assumes "\<not> contributorUpdateThrows env" and "findContributor d1 cid = Some c"
  shows "\<exists>d' c'. rewardAndUpdate env input p b c d1 = (Inr (rewardOf input p b c), d')
           \<and> processDeclarations d' = processDeclarations d1
           \<and> findContributor d' cid = Some c'
           \<and> c_totalPoints c' = newTotal (rewardOf input p b c)
           \<and> c_currentTier c' = calculateTier (newTotal (rewardOf input p b c))
           \<and> c_tasteScore c' = c_tasteScore c"
proof -
  let ?r = "rewardOf input p b c"
  let ?f = "(\<lambda>x. x\<lparr> c_totalContributions := c_totalContributions c + 1,
                      c_totalPoints := newTotal ?r,
                      c_currentTier := calculateTier (newTotal ?r),
                      c_expertiseTags := mergeTags (c_expertiseTags c)
                         (case in_expertiseTags input of None \<Rightarrow> [] | Some tags \<Rightarrow> tags),
                      c_platformStats := Some (bumpPlatformStats (c_platformStats c) (toLowerCase p)),
                      c_consentVersion :=
                        (case in_consentVersion input of
                           None \<Rightarrow> c_consentVersion x | Some v \<Rightarrow> Some v),
                      c_consentTimestamp :=
                        (case in_consentTimestamp input of
                           None \<Rightarrow> c_consentTimestamp x
                         | Some ts \<Rightarrow> if ts \<noteq> [] then Some (newDate (parseDate env) ts)
                                      else c_consentTimestamp x) \<rparr>)"
  have eq: "rewardAndUpdate env input p b c d1 = (Inr ?r, updateContributor (c_id c) ?f d1)"
    using assms(1) by (simp add: rewardAndUpdate_def rewardOf_def Let_def)
  have an: "\<And>x. c_anonymousId (?f x) = c_anonymousId x" by simp
  have fnd: "findContributor (updateContributor (c_id c) ?f d1) cid = Some (?f c)"
    using find_update_same[OF assms(2)[unfolded findContributor_def], of ?f, OF an]
    by (simp add: findContributor_def updateContributor_def)
  show ?thesis
    apply (rule exI[of _ "updateContributor (c_id c) ?f d1"])
    apply (rule exI[of _ "?f c"])
    using eq fnd by (simp add: updateContributor_def)
qed

lemma reward_ok:
  assumes "in_promptLineage input = Some lineage" and "in_rejectedOutputs input = Some rejected"
    and "in_platform input = Some p"
    and "\<not> contributorFindThrows env" and "\<not> contributorUpdateThrows env"
    and "findContributor d cid = None \<longrightarrow> \<not> contributorCreateThrows env"
  shows "\<exists>d' c'. calculateContributionReward env cid pid input d
             = (Inr (rewardOf input p (calculateBasePoints input lineage rejected)
                       (priorContributor env cid input d)), d')
           \<and> processDeclarations d' = processDeclarations d
           \<and> findContributor d' cid = Some c'
           \<and> c_totalPoints c' = newTotal (rewardOf input p (calculateBasePoints input lineage rejected)
                       (priorContributor env cid input d))
           \<and> c_currentTier c' = calculateTier (newTotal (rewardOf input p
                       (calculateBasePoints input lineage rejected) (priorContributor env cid input d)))"
proof -
  from getOrCreate_ok[OF assms(4) assms(6), of input] obtain d1 where
    g: "getOrCreateContributor env cid input d = Inr (priorContributor env cid input d, d1)"
    and p1: "processDeclarations d1 = processDeclarations d"
    and f1: "findContributor d1 cid = Some (priorContributor env cid input d)" by blast
  from rewardAndUpdate_ok[OF assms(5) f1, of input p "calculateBasePoints input lineage rejected"]
  obtain d' c' where
    r: "rewardAndUpdate env input p (calculateBasePoints input lineage rejected)
          (priorContributor env cid input d) d1
        = (Inr (rewardOf input p (calculateBasePoints input lineage rejected)
                  (priorContributor env cid input d)), d')"
    and rest: "processDeclarations d' = processDeclarations d1"
      "findContributor d' cid = Some c'"
      "c_totalPoints c' = newTotal (rewardOf input p (calculateBasePoints input lineage rejected)
                       (priorContributor env cid input d))"
      "c_currentTier c' = calculateTier (newTotal (rewardOf input p
                       (calculateBasePoints input lineage rejected) (priorContributor env cid input d)))"
    by blast
  have "calculateContributionReward env cid pid input d
          = (Inr (rewardOf input p (calculateBasePoints input lineage rejected)
                       (priorContributor env cid input d)), d')"
    using assms(1,2,3) g r by (simp add: calculateContributionReward_def Let_def)
  then show ?thesis using rest p1 by auto
qed

lemma validate_fields:
  assumes "validateProcessInput parse input = Valid"
  shows "\<exists>p started lineage rejected.
           in_platform input = Some p \<and> p \<noteq> [] \<and> in_sessionStartedAt input = Some started
           \<and> in_promptLineage input = Some lineage \<and> in_rejectedOutputs input = Some rejected"
  using assms
  by (auto simp: validateProcessInput_def truthy_def split: option.splits if_splits)

lemma example_valid: "validateProcessInput (parseDate example_env) example_input = Valid"
  by code_simp





lemma fl_half: "fl (1 / 2) = 1 / 2" by code_simp
lemma fl_three_halves: "fl (3 / 2) = 3 / 2" by code_simp
lemma fl_five: "fl 5 = 5" by code_simp
lemma fl_least_product: "fl (5 * fl (7 / 10)) = 7 / 2" by code_simp

lemma qualityMultiplier_bounds:
  assumes "0 \<le> t" and "t \<le> 1"
  shows "1 / 2 \<le> fadd (1 / 2) t" and "fadd (1 / 2) t \<le> 3 / 2"
proof -
  have "fl (1 / 2) \<le> fl (1 / 2 + t)" using assms by (intro fl_mono) simp
  then show "1 / 2 \<le> fadd (1 / 2) t" by (simp add: fadd_def fl_half)
  have "fl (1 / 2 + t) \<le> fl (3 / 2)" using assms by (intro fl_mono) simp
  then show "fadd (1 / 2) t \<le> 3 / 2" by (simp add: fadd_def fl_three_halves)
qed

lemma rarity_table_least:
  "\<forall>v \<in> snd ` set PLATFORM_RARITY_LOCAL. fl (7 / 10) \<le> v"
  by code_simp

lemma rarity_least_pos: "0 < fl (7 / 10) \<and> fl (7 / 10) \<le> 1"
  by code_simp

lemma rarityBonusOf_least: "fl (7 / 10) \<le> rarityBonusOf v"
proof (cases v)
  case (Str k)
  show ?thesis
  proof (cases "map_of PLATFORM_RARITY_LOCAL k")
    case None
    then show ?thesis using Str rarity_least_pos by (simp add: rarityBonusOf_def)
  next
    case (Some x)
    then have "x \<in> snd ` set PLATFORM_RARITY_LOCAL" by (force dest: map_of_SomeD)
    then have "fl (7 / 10) \<le> x" using rarity_table_least by blast
    then show ?thesis using Str Some rarity_least_pos by (simp add: rarityBonusOf_def)
  qed
next
  case (ProtoMember k)
  then show ?thesis using rarity_least_pos by (simp add: rarityBonusOf_def)
qed

lemma points_positive:
  assumes "10 \<le> b" and "1 / 2 \<le> q" and "fl (7 / 10) \<le> r"
  shows "4 \<le> Math_round (fmul (fmul (of_int b) q) r)"
proof -
  have b: "(10::rat) \<le> of_int b" using assms(1) by (metis of_int_le_iff of_int_numeral)
  have "10 * (1 / 2) \<le> of_int b * q" using b assms(2) by (intro mult_mono) simp_all
  then have "fl 5 \<le> fl (of_int b * q)" by (intro fl_mono) simp
  then have x: "5 \<le> fmul (of_int b) q" by (simp add: fmul_def fl_five)
  have "5 * fl (7 / 10) \<le> fmul (of_int b) q * r"
    using x assms(3) rarity_least_pos by (intro mult_mono) simp_all
  then have "fl (5 * fl (7 / 10)) \<le> fl (fmul (of_int b) q * r)" by (rule fl_mono)
  then have "7 / 2 \<le> fmul (fmul (of_int b) q) r" by (simp add: fmul_def fl_least_product)
  then have "(of_int 4 :: rat) \<le> fmul (fmul (of_int b) q) r + 1 / 2" by simp
  then show ?thesis unfolding Math_round_def by (simp only: le_floor_iff)
qed

lemma calculateTier_mono: "a \<le> b \<Longrightarrow> tier_rank (calculateTier a) \<le> tier_rank (calculateTier b)"
  by (simp add: calculateTier_cases)

text \<open>
  Claim C7. When the contributor's taste score lies in \<open>[0, 1]\<close> and the stored tier is the
  tier of the stored total, a reward computation that the database answers returns a
  quality multiplier in \<open>[0.5, 1.5]\<close> and strictly positive points, the new total exceeds
  the prior one, and the tier stored afterwards is the tier of the new total and is not
  below the prior tier.
\<close>

theorem reward_invariants:
  assumes "in_promptLineage input = Some lineage" and "in_rejectedOutputs input = Some rejected"
    and "in_platform input = Some p"
    and "\<not> contributorFindThrows env" and "\<not> contributorCreateThrows env"
    and "\<not> contributorUpdateThrows env"
    and "0 \<le> c_tasteScore (priorContributor env cid input d)"
    and "c_tasteScore (priorContributor env cid input d) \<le> 1"
    and "c_currentTier (priorContributor env cid input d)
           = calculateTier (c_totalPoints (priorContributor env cid input d))"
  shows "\<exists>reward d' c'.
           calculateContributionReward env cid pid input d = (Inr reward, d')
         \<and> 1 / 2 \<le> qualityMultiplier reward \<and> qualityMultiplier reward \<le> 3 / 2
         \<and> 0 < pointsEarned reward
         \<and> newTotal reward = c_totalPoints (priorContributor env cid input d) + pointsEarned reward
         \<and> c_totalPoints (priorContributor env cid input d) < newTotal reward
         \<and> findContributor d' cid = Some c'
         \<and> c_totalPoints c' = newTotal reward
         \<and> c_currentTier c' = calculateTier (newTotal reward)
         \<and> tier_rank (c_currentTier (priorContributor env cid input d))
              \<le> tier_rank (c_currentTier c')"
proof -
  let ?c = "priorContributor env cid input d"
  let ?b = "calculateBasePoints input lineage rejected"
  let ?r = "rewardOf input p ?b ?c"
  from reward_ok[OF assms(1) assms(2) assms(3) assms(4) assms(6), of d cid pid] assms(5)
  obtain d' c' where r: "calculateContributionReward env cid pid input d = (Inr ?r, d')"
    and c': "findContributor d' cid = Some c'" "c_totalPoints c' = newTotal ?r"
      "c_currentTier c' = calculateTier (newTotal ?r)" by blast
  have q: "qualityMultiplier ?r = fadd (1 / 2) (c_tasteScore ?c)"
    by (simp add: rewardOf_def Let_def)
  have qb: "1 / 2 \<le> qualityMultiplier ?r" "qualityMultiplier ?r \<le> 3 / 2"
    using qualityMultiplier_bounds[OF assms(7) assms(8)] by (simp_all add: q)
  have pe: "pointsEarned ?r
      = Math_round (fmul (fmul (of_int ?b) (fadd (1 / 2) (c_tasteScore ?c)))
                      (rarityBonusOf (mapPlatformToEnum p)))"
    by (simp add: rewardOf_def Let_def)
  have "4 \<le> pointsEarned ?r"
    unfolding pe using calculateBasePoints_ge qb(1)[unfolded q] rarityBonusOf_least
    by (rule points_positive)
  then have pos: "0 < pointsEarned ?r" by simp
  have nt: "newTotal ?r = c_totalPoints ?c + pointsEarned ?r"
    by (simp add: rewardOf_def Let_def)
  have lt: "c_totalPoints ?c < newTotal ?r" using pos nt by simp
  have "tier_rank (calculateTier (c_totalPoints ?c)) \<le> tier_rank (calculateTier (newTotal ?r))"
    using lt by (intro calculateTier_mono) simp
  then have tr: "tier_rank (c_currentTier ?c) \<le> tier_rank (c_currentTier c')"
    by (simp add: assms(9) c'(3))
  show ?thesis
    using r qb pos nt lt c' tr
    by (intro exI[of _ ?r] exI[of _ d'] exI[of _ c']) simp
qed

theorem reward_invariants_witness:
  "\<exists>reward d' c'.
      calculateContributionReward example_env ''anon-1'' ''pd-1'' example_input example_reward_db
        = (Inr reward, d')
    \<and> 1 / 2 \<le> qualityMultiplier reward \<and> qualityMultiplier reward \<le> 3 / 2
    \<and> 0 < pointsEarned reward
    \<and> findContributor d' ''anon-1'' = Some c'
    \<and> c_currentTier c' = calculateTier (newTotal reward)
    \<and> tier_rank Explorer \<le> tier_rank (c_currentTier c')"
proof -
  have pc: "priorContributor example_env ''anon-1'' example_input example_reward_db
              = example_contributor"
    by (simp add: priorContributor_def findContributor_def example_reward_db_def
          example_contributor_def)
  have h: "in_promptLineage example_input
             = Some (map example_version [''v1'', ''v2'', ''v3'', ''v4'', ''v5''])"
    "in_rejectedOutputs example_input = Some (map example_rejection [''r1'', ''r2''])"
    "in_platform example_input = Some ''stable-diffusion''"
    by (simp_all add: example_input_def)
  have n: "\<not> contributorFindThrows example_env" "\<not> contributorCreateThrows example_env"
    "\<not> contributorUpdateThrows example_env" by (simp_all add: example_env_def)
  have t: "0 \<le> c_tasteScore (priorContributor example_env ''anon-1'' example_input example_reward_db)"
    "c_tasteScore (priorContributor example_env ''anon-1'' example_input example_reward_db) \<le> 1"
    "c_currentTier (priorContributor example_env ''anon-1'' example_input example_reward_db)
       = calculateTier (c_totalPoints
           (priorContributor example_env ''anon-1'' example_input example_reward_db))"
    unfolding pc by (simp_all add: example_contributor_def calculateTier_cases)
  have e: "c_currentTier (priorContributor example_env ''anon-1'' example_input example_reward_db)
             = Explorer"
    unfolding pc by (simp add: example_contributor_def)
  from reward_invariants[OF h n t, of "''pd-1''"] e
  show ?thesis by (metis (no_types, lifting))
qed

subsection \<open>The taste score\<close>

lemma fsub_one_alpha: "fsub 1 alpha = fl (4 / 5)"
  by code_simp

lemma example_taste_tenth: "fl (1 / 10) = example_taste"
  by code_simp

lemma example_taste_ema:
  "fadd (fmul example_taste (fl (4 / 5))) (fmul example_taste (fl (1 / 5)))
     = 7205759403792795 / 72057594037927936"
  by code_simp

lemma updateTasteScore_found:
  assumes "findContributor d cid = Some c"
  shows "updateTasteScore cid a d
           = (max 0 (min 1 (fadd (fmul (c_tasteScore c) (fl (4 / 5))) (fmul a (fl (1 / 5))))),
              updateContributor (c_id c)
                (\<lambda>x. x\<lparr>c_tasteScore :=
                   max 0 (min 1 (fadd (fmul (c_tasteScore c) (fl (4 / 5))) (fmul a (fl (1 / 5)))))\<rparr>) d)"
  using assms by (simp add: updateTasteScore_def Let_def fsub_one_alpha) (simp add: alpha_def)

lemma example_taste_found:
  "findContributor example_taste_db ''anon-2'' = Some example_taste_contributor"
  by (simp add: findContributor_def example_taste_db_def example_taste_contributor_def)

lemma example_taste_updated:
  "fst (updateTasteScore ''anon-2'' example_taste example_taste_db)
     = 7205759403792795 / 72057594037927936"
  by (simp add: updateTasteScore_found[OF example_taste_found] example_taste_ema)
     (simp add: example_taste_contributor_def example_taste_ema)

text \<open>
  Claim C5 says that the score moves by exactly 20% of the gap and stays fixed exactly
  when the alignment score equals it. With the stored score and the alignment score both
  the binary64 value of \<^verbatim>\<open>0.1\<close>, \<open>updateTasteScore\<close> returns \<open>7205759403792795 / 2^56\<close>
  (printed \<^verbatim>\<open>0.10000000000000002\<close>): not the score it started from, and not the exact
  value of \<open>s \<times> 0.8 + a \<times> 0.2\<close>.
\<close>

theorem updateTasteScore_not_idempotent:
  "findContributor example_taste_db ''anon-2'' = Some example_taste_contributor
   \<and> c_tasteScore example_taste_contributor = example_taste
   \<and> fl (1 / 10) = example_taste
   \<and> 0 \<le> example_taste \<and> example_taste \<le> 1
   \<and> fst (updateTasteScore ''anon-2'' example_taste example_taste_db) \<noteq> example_taste
   \<and> fst (updateTasteScore ''anon-2'' example_taste example_taste_db)
        \<noteq> max 0 (min 1 (example_taste * (4 / 5) + example_taste * (1 / 5)))"
  by (simp add: example_taste_updated example_taste_tenth)
     (simp add: example_taste_def findContributor_def example_taste_db_def
        example_taste_contributor_def)

lemma fl_error_below_two:
  assumes "0 \<le> x" and "x < 2"
  shows "\<bar>fl x - x\<bar> \<le> 1 / 2 ^ 53"
proof (cases "x = 0")
  case True
  then show ?thesis by simp
next
  case False
  then have xp: "0 < x" using assms by simp
  define e where "e = max (ilog2 x - 52) (- 1074)"
  have "(2::rat) powi ilog2 x \<le> x" using ilog2_bounds(1)[OF xp] .
  also have "\<dots> < 2 powi 1" using assms by simp
  finally have lt: "(2::rat) powi ilog2 x < 2 powi 1" .
  have "ilog2 x < 1"
  proof (rule ccontr)
    assume "\<not> ilog2 x < 1"
    then have "1 \<le> ilog2 x" by simp
    then have "(2::rat) powi 1 \<le> 2 powi ilog2 x" by (rule power_int_increasing) simp
    then show False using lt by simp
  qed
  then have e52: "e \<le> - 52" by (simp add: e_def)
  have pe: "(2::rat) powi e \<le> 2 powi (- 52)" using e52 by (intro power_int_increasing) simp_all
  have pp: "(0::rat) < 2 powi e" by simp
  have fx: "fl x = of_int (round_half_even (x / 2 powi e)) * 2 powi e"
    unfolding e_def by (rule fl_pos[OF xp])
  have "fl x - x = (of_int (round_half_even (x / 2 powi e)) - x / 2 powi e) * 2 powi e"
    using pp by (simp add: fx field_simps)
  then have "\<bar>fl x - x\<bar> = \<bar>of_int (round_half_even (x / 2 powi e)) - x / 2 powi e\<bar> * 2 powi e"
    using pp by (simp add: abs_mult)
  also have "\<dots> \<le> (1 / 2) * 2 powi e"
    using round_half_even_err[of "x / 2 powi e"] pp by (intro mult_right_mono) simp_all
  also have "\<dots> \<le> (1 / 2) * 2 powi (- 52)" using pe by simp
  also have "\<dots> = 1 / 2 ^ 53" by (simp add: power_int_minus_divide)
  finally show ?thesis .
qed

lemma clamp_close:
  fixes y v :: rat
  assumes "0 \<le> v" and "v \<le> 1"
  shows "\<bar>max 0 (min 1 y) - v\<bar> \<le> \<bar>y - v\<bar>"
  using assms by (auto simp: max_def min_def abs_if)

lemma ema_close:
  assumes s: "0 \<le> s" "s \<le> 1" and a: "0 \<le> a" "a \<le> 1"
  shows "\<bar>fadd (fmul s (fl (4 / 5))) (fmul a (fl (1 / 5))) - (s + (a - s) / 5)\<bar> \<le> 1 / 2 ^ 51"
proof -
  define A where "A = fl (4 / 5)"
  define B where "B = fl (1 / 5)"
  have AB: "0 \<le> A" "A \<le> 1" "0 \<le> B" "A + B < 2" "\<bar>A - 4 / 5\<bar> \<le> 1 / 2 ^ 54"
    "\<bar>B - 1 / 5\<bar> \<le> 1 / 2 ^ 54" "fl A = A" "fl B = B" "B \<le> 1"
    unfolding A_def B_def by code_simp+
  have sA: "0 \<le> s * A" "s * A \<le> A" using s AB by (simp_all add: mult_left_le_one_le)
  have aB: "0 \<le> a * B" "a * B \<le> B" using a AB by (simp_all add: mult_left_le_one_le)
  define p1 where "p1 = fl (s * A)"
  define p2 where "p2 = fl (a * B)"
  have e1: "\<bar>p1 - s * A\<bar> \<le> 1 / 2 ^ 53"
    unfolding p1_def using sA AB by (intro fl_error_below_two) simp_all
  have e2: "\<bar>p2 - a * B\<bar> \<le> 1 / 2 ^ 53"
    unfolding p2_def using aB AB by (intro fl_error_below_two) simp_all
  have p1b: "0 \<le> p1" "p1 \<le> A"
    unfolding p1_def using fl_nonneg[OF sA(1)] fl_mono[OF sA(2)] AB by simp_all
  have p2b: "0 \<le> p2" "p2 \<le> B"
    unfolding p2_def using fl_nonneg[OF aB(1)] fl_mono[OF aB(2)] AB by simp_all
  have e3: "\<bar>fl (p1 + p2) - (p1 + p2)\<bar> \<le> 1 / 2 ^ 53"
    using p1b p2b AB by (intro fl_error_below_two) simp_all
  have e4: "\<bar>s * A - s * (4 / 5)\<bar> \<le> 1 / 2 ^ 54"
  proof -
    have "s * A - s * (4 / 5) = s * (A - 4 / 5)" by (simp add: algebra_simps)
    then have "\<bar>s * A - s * (4 / 5)\<bar> = s * \<bar>A - 4 / 5\<bar>"
      using s by (simp only: abs_mult abs_of_nonneg)
    also have "\<dots> \<le> 1 * \<bar>A - 4 / 5\<bar>" using s by (intro mult_right_mono) simp_all
    finally show ?thesis using AB by simp
  qed
  have e5: "\<bar>a * B - a * (1 / 5)\<bar> \<le> 1 / 2 ^ 54"
  proof -
    have "a * B - a * (1 / 5) = a * (B - 1 / 5)" by (simp add: algebra_simps)
    then have "\<bar>a * B - a * (1 / 5)\<bar> = a * \<bar>B - 1 / 5\<bar>"
      using a by (simp only: abs_mult abs_of_nonneg)
    also have "\<dots> \<le> 1 * \<bar>B - 1 / 5\<bar>" using a by (intro mult_right_mono) simp_all
    finally show ?thesis using AB by simp
  qed
  have ex: "s + (a - s) / 5 = s * (4 / 5) + a * (1 / 5)" by (simp add: field_simps)
  define eps :: rat where "eps = 1 / 2 ^ 53"
  define u1 where "u1 = s * A"
  define u2 where "u2 = a * B"
  define w1 where "w1 = s * (4 / 5)"
  define w2 where "w2 = a * (1 / 5)"
  define q where "q = fl (p1 + p2)"
  have b: "\<bar>p1 - u1\<bar> \<le> eps" "\<bar>p2 - u2\<bar> \<le> eps" "\<bar>q - (p1 + p2)\<bar> \<le> eps"
    "\<bar>u1 - w1\<bar> \<le> eps / 2" "\<bar>u2 - w2\<bar> \<le> eps / 2"
    using e1 e2 e3 e4 e5 by (simp_all add: eps_def u1_def u2_def w1_def w2_def q_def)
  have "\<bar>q - (w1 + w2)\<bar> \<le> 4 * eps" using b by linarith
  then have "\<bar>fl (p1 + p2) - (s * (4 / 5) + a * (1 / 5))\<bar> \<le> 4 * (1 / 2 ^ 53)"
    by (simp add: eps_def w1_def w2_def q_def)
  also have "\<dots> \<le> 1 / 2 ^ 51" by simp
  finally show ?thesis
    unfolding ex by (simp add: fadd_def fmul_def p1_def p2_def A_def B_def)
qed

text \<open>
  Claim C5, amended. For an unknown identifier \<open>updateTasteScore\<close> returns 0.5 and leaves
  the database as it is. For a known contributor with score \<open>s\<close> it returns, and stores
  as the contributor's score, the clamp to \<open>[0, 1]\<close> of the binary64 value of
  \<open>s \<times> 0.8 + a \<times> 0.2\<close> (each product and the sum rounded; \<^verbatim>\<open>1 - 0.2\<close> is the binary64
  \<^verbatim>\<open>0.8\<close>); the result lies in \<open>[0, 1]\<close>, and for \<open>s\<close> and \<open>a\<close> in \<open>[0, 1]\<close> it is within
  \<open>2^-51\<close> of \<open>s + (a - s) / 5\<close>.
\<close>

theorem updateTasteScore_ema:
  "(findContributor d cid = None \<longrightarrow> updateTasteScore cid a d = (1 / 2, d))
   \<and> (\<forall>c. findContributor d cid = Some c \<longrightarrow>
        (\<exists>c'. fst (updateTasteScore cid a d)
                 = max 0 (min 1 (fadd (fmul (c_tasteScore c) (fl (4 / 5))) (fmul a (fl (1 / 5)))))
            \<and> 0 \<le> fst (updateTasteScore cid a d) \<and> fst (updateTasteScore cid a d) \<le> 1
            \<and> findContributor (snd (updateTasteScore cid a d)) cid = Some c'
            \<and> c_tasteScore c' = fst (updateTasteScore cid a d)
            \<and> (0 \<le> c_tasteScore c \<and> c_tasteScore c \<le> 1 \<and> 0 \<le> a \<and> a \<le> 1 \<longrightarrow>
                 \<bar>fst (updateTasteScore cid a d) - (c_tasteScore c + (a - c_tasteScore c) / 5)\<bar>
                   \<le> 1 / 2 ^ 51)))"
proof (intro conjI allI impI)
  assume "findContributor d cid = None"
  then show "updateTasteScore cid a d = (1 / 2, d)" by (simp add: updateTasteScore_def)
next
  fix c
  assume f: "findContributor d cid = Some c"
  let ?v = "max 0 (min 1 (fadd (fmul (c_tasteScore c) (fl (4 / 5))) (fmul a (fl (1 / 5)))))"
  let ?f = "\<lambda>x. x\<lparr>c_tasteScore := ?v\<rparr>"
  have u: "updateTasteScore cid a d = (?v, updateContributor (c_id c) ?f d)"
    by (rule updateTasteScore_found[OF f])
  have an: "\<And>x. c_anonymousId (?f x) = c_anonymousId x" by simp
  have fnd: "findContributor (updateContributor (c_id c) ?f d) cid = Some (?f c)"
    using find_update_same[OF f[unfolded findContributor_def], of ?f, OF an]
    by (simp add: findContributor_def updateContributor_def)
  have close: "0 \<le> c_tasteScore c \<and> c_tasteScore c \<le> 1 \<and> 0 \<le> a \<and> a \<le> 1 \<longrightarrow>
      \<bar>?v - (c_tasteScore c + (a - c_tasteScore c) / 5)\<bar> \<le> 1 / 2 ^ 51"
  proof
    assume h: "0 \<le> c_tasteScore c \<and> c_tasteScore c \<le> 1 \<and> 0 \<le> a \<and> a \<le> 1"
    let ?t = "c_tasteScore c + (a - c_tasteScore c) / 5"
    have t: "0 \<le> ?t" "?t \<le> 1" using h by (simp_all add: field_simps)
    have "\<bar>?v - ?t\<bar> \<le> \<bar>fadd (fmul (c_tasteScore c) (fl (4 / 5))) (fmul a (fl (1 / 5))) - ?t\<bar>"
      using t by (rule clamp_close)
    also have "\<dots> \<le> 1 / 2 ^ 51" using h by (intro ema_close) simp_all
    finally show "\<bar>?v - ?t\<bar> \<le> 1 / 2 ^ 51" .
  qed
  show "\<exists>c'. fst (updateTasteScore cid a d) = ?v
            \<and> 0 \<le> fst (updateTasteScore cid a d) \<and> fst (updateTasteScore cid a d) \<le> 1
            \<and> findContributor (snd (updateTasteScore cid a d)) cid = Some c'
            \<and> c_tasteScore c' = fst (updateTasteScore cid a d)
            \<and> (0 \<le> c_tasteScore c \<and> c_tasteScore c \<le> 1 \<and> 0 \<le> a \<and> a \<le> 1 \<longrightarrow>
                 \<bar>fst (updateTasteScore cid a d) - (c_tasteScore c + (a - c_tasteScore c) / 5)\<bar>
                   \<le> 1 / 2 ^ 51)"
    unfolding u using fnd close by (intro exI[of _ "?f c"]) simp
qed

theorem updateTasteScore_ema_witness:
  "updateTasteScore ''nobody'' example_taste example_taste_db = (1 / 2, example_taste_db)
   \<and> fst (updateTasteScore ''anon-2'' example_taste example_taste_db)
       = max 0 (min 1 (fadd (fmul example_taste (fl (4 / 5))) (fmul example_taste (fl (1 / 5)))))
   \<and> 0 \<le> fst (updateTasteScore ''anon-2'' example_taste example_taste_db)
   \<and> fst (updateTasteScore ''anon-2'' example_taste example_taste_db) \<le> 1
   \<and> \<bar>fst (updateTasteScore ''anon-2'' example_taste example_taste_db) - example_taste\<bar>
       \<le> 1 / 2 ^ 51"
proof -
  have h0: "findContributor example_taste_db ''nobody'' = None"
    by (simp add: findContributor_def example_taste_db_def example_taste_contributor_def)
  have ts: "c_tasteScore example_taste_contributor = example_taste"
    by (simp add: example_taste_contributor_def)
  have b: "0 \<le> c_tasteScore example_taste_contributor \<and> c_tasteScore example_taste_contributor \<le> 1
           \<and> 0 \<le> example_taste \<and> example_taste \<le> 1"
    by (simp add: ts) (simp add: example_taste_def)
  note T = updateTasteScore_ema[of example_taste_db _ example_taste]
  have c1: "updateTasteScore ''nobody'' example_taste example_taste_db = (1 / 2, example_taste_db)"
    by (rule mp[OF T[THEN conjunct1] h0])
  from mp[OF spec[OF T[THEN conjunct2]] example_taste_found] b
  have c2: "fst (updateTasteScore ''anon-2'' example_taste example_taste_db)
       = max 0 (min 1 (fadd (fmul (c_tasteScore example_taste_contributor) (fl (4 / 5)))
                         (fmul example_taste (fl (1 / 5)))))"
    and c3: "0 \<le> fst (updateTasteScore ''anon-2'' example_taste example_taste_db)"
    and c4: "fst (updateTasteScore ''anon-2'' example_taste example_taste_db) \<le> 1"
    and c5: "\<bar>fst (updateTasteScore ''anon-2'' example_taste example_taste_db)
              - (c_tasteScore example_taste_contributor
                 + (example_taste - c_tasteScore example_taste_contributor) / 5)\<bar> \<le> 1 / 2 ^ 51"
    by blast+
  show ?thesis using c1 c2 c3 c4 c5 by (simp add: ts)
qed

subsection \<open>The ingestion endpoint\<close>

lemma reward_frame:
  "processDeclarations (snd (calculateContributionReward env cid pid input d)) = processDeclarations d"
  by (auto simp: calculateContributionReward_def getOrCreateContributor_def rewardAndUpdate_def
        updateContributor_def Let_def split: option.splits sum.splits prod.splits)

lemma reward_throws:
  assumes "contributorFindThrows env \<or> contributorUpdateThrows env
           \<or> (contributorCreateThrows env \<and> findContributor d cid = None)"
  shows "\<exists>e. fst (calculateContributionReward env cid pid input d) = Inl e"
  using assms
  by (auto simp: calculateContributionReward_def getOrCreateContributor_def rewardAndUpdate_def
        Let_def split: option.splits sum.splits prod.splits)

text \<open>For a valid input these are the only ways the reward calculation can throw.\<close>

lemma reward_throws_iff:
  assumes "validateProcessInput parse input = Valid"
  shows "(\<exists>e. fst (calculateContributionReward env cid pid input d) = Inl e)
         \<longleftrightarrow> (contributorFindThrows env \<or> contributorUpdateThrows env
              \<or> (contributorCreateThrows env \<and> findContributor d cid = None))"
proof
  assume l: "\<exists>e. fst (calculateContributionReward env cid pid input d) = Inl e"
  show "contributorFindThrows env \<or> contributorUpdateThrows env
              \<or> (contributorCreateThrows env \<and> findContributor d cid = None)"
  proof (rule ccontr)
    assume n: "\<not> (contributorFindThrows env \<or> contributorUpdateThrows env
              \<or> (contributorCreateThrows env \<and> findContributor d cid = None))"
    from validate_fields[OF assms] obtain p lineage rejected where
      f: "in_platform input = Some p" "in_promptLineage input = Some lineage"
         "in_rejectedOutputs input = Some rejected" by blast
    have n1: "\<not> contributorFindThrows env" and n2: "\<not> contributorUpdateThrows env"
      and n3: "findContributor d cid = None \<longrightarrow> \<not> contributorCreateThrows env"
      using n by auto
    from reward_ok[OF f(2) f(3) f(1) n1 n2 n3, of pid]
    obtain r d' where "calculateContributionReward env cid pid input d = (Inr r, d')" by blast
    then show False using l by simp
  qed
next
  assume "contributorFindThrows env \<or> contributorUpdateThrows env
              \<or> (contributorCreateThrows env \<and> findContributor d cid = None)"
  then show "\<exists>e. fst (calculateContributionReward env cid pid input d) = Inl e"
    by (rule reward_throws)
qed

lemma rewardStep_frame:
  "processDeclarations (snd (rewardStep env input pid d1)) = processDeclarations d1"
proof (cases "calculateContributionReward env (the (in_contributorId input)) pid input d1")
  case (Pair res d')
  then have "processDeclarations d' = processDeclarations d1"
    using reward_frame[of env "the (in_contributorId input)" pid input d1] by simp
  then show ?thesis
    using Pair by (auto simp: rewardStep_def split: option.splits sum.splits)
qed

lemma rewardStep_closed:
  assumes "\<not> (truthy (in_contributorId input) \<and> in_consentForTrainingData input)"
  shows "rewardStep env input pid d1 = (None, d1)"
  using assms by (auto simp: rewardStep_def truthy_def split: option.splits)

lemma rewardStep_throws:
  assumes "in_contributorId input = Some cid"
    and "\<exists>e. fst (calculateContributionReward env cid pid input d1) = Inl e"
  shows "fst (rewardStep env input pid d1) = None"
  using assms
  by (cases "calculateContributionReward env cid pid input d1")
     (auto simp: rewardStep_def split: option.splits sum.splits)

lemma POST_created:
  assumes "validateProcessInput (parseDate env) input = Valid"
    and "declarationCreateThrows env = None"
  shows "\<exists>row. pd_id row = newId env 1
           \<and> POST env (Some input) d
               = (\<lparr> status = 201, success = True, resp_id = Some (newId env 1),
                     resp_reward = fst (rewardStep env input (newId env 1)
                        (d\<lparr>processDeclarations := processDeclarations d @ [row]\<rparr>)),
                     resp_error = None \<rparr>,
                  snd (rewardStep env input (newId env 1)
                        (d\<lparr>processDeclarations := processDeclarations d @ [row]\<rparr>)))"
proof -
  from validate_fields[OF assms(1)] obtain p started lineage rejected where
    f: "in_platform input = Some p" "in_sessionStartedAt input = Some started"
       "in_promptLineage input = Some lineage" "in_rejectedOutputs input = Some rejected"
    by blast
  let ?row = "processDeclarationRow env input p started lineage rejected"
  have id: "pd_id ?row = newId env 1" by (simp add: processDeclarationRow_def)
  have "POST env (Some input) d
               = (\<lparr> status = 201, success = True, resp_id = Some (newId env 1),
                     resp_reward = fst (rewardStep env input (newId env 1)
                        (d\<lparr>processDeclarations := processDeclarations d @ [?row]\<rparr>)),
                     resp_error = None \<rparr>,
                  snd (rewardStep env input (newId env 1)
                        (d\<lparr>processDeclarations := processDeclarations d @ [?row]\<rparr>)))"
    using assms f id by (simp add: POST_def Let_def split_beta)
  then show ?thesis using id by blast
qed

text \<open>
  Claim C9. When the submission is valid, its record has been inserted, the reward step
  is entered (identifier and consent given) and a call of the reward calculation to the
  database throws, \<open>POST\<close> still answers 201 with \<^verbatim>\<open>success: true\<close> and the identifier of
  the record, without a reward, and the record is in the table.
\<close>

theorem POST_reward_failure_swallowed:
  assumes "validateProcessInput (parseDate env) input = Valid"
    and "declarationCreateThrows env = None"
    and "in_contributorId input = Some cid" and "cid \<noteq> []"
    and "in_consentForTrainingData input"
    and "contributorFindThrows env \<or> contributorUpdateThrows env
         \<or> (contributorCreateThrows env \<and> findContributor d cid = None)"
  shows "\<exists>row d'. POST env (Some input) d
                    = (\<lparr> status = 201, success = True, resp_id = Some (pd_id row),
                          resp_reward = None, resp_error = None \<rparr>, d')
                  \<and> processDeclarations d' = processDeclarations d @ [row]
                  \<and> (\<exists>e. fst (calculateContributionReward env cid (pd_id row) input
                               (d\<lparr>processDeclarations := processDeclarations d @ [row]\<rparr>)) = Inl e)"
proof -
  from POST_created[OF assms(1) assms(2), of d] obtain row where
    id: "pd_id row = newId env 1"
    and p: "POST env (Some input) d
               = (\<lparr> status = 201, success = True, resp_id = Some (newId env 1),
                     resp_reward = fst (rewardStep env input (newId env 1)
                        (d\<lparr>processDeclarations := processDeclarations d @ [row]\<rparr>)),
                     resp_error = None \<rparr>,
                  snd (rewardStep env input (newId env 1)
                        (d\<lparr>processDeclarations := processDeclarations d @ [row]\<rparr>)))"
    by blast
  let ?d1 = "d\<lparr>processDeclarations := processDeclarations d @ [row]\<rparr>"
  have fc: "findContributor ?d1 cid = findContributor d cid" by (simp add: findContributor_def)
  have th: "\<exists>e. fst (calculateContributionReward env cid (newId env 1) input ?d1) = Inl e"
    using assms(6) by (intro reward_throws) (simp add: fc)
  have none: "fst (rewardStep env input (newId env 1) ?d1) = None"
    by (rule rewardStep_throws[OF assms(3) th])
  have fr: "processDeclarations (snd (rewardStep env input (newId env 1) ?d1))
              = processDeclarations d @ [row]"
    by (simp add: rewardStep_frame)
  show ?thesis
    using p none fr th id
    by (intro exI[of _ row] exI[of _ "snd (rewardStep env input (newId env 1) ?d1)"]) simp
qed

theorem POST_reward_failure_swallowed_witness:
  "\<exists>row d'. POST (example_env\<lparr>contributorUpdateThrows := True\<rparr>) (Some example_input)
               example_reward_db
             = (\<lparr> status = 201, success = True, resp_id = Some (pd_id row),
                   resp_reward = None, resp_error = None \<rparr>, d')
           \<and> processDeclarations d' = processDeclarations example_reward_db @ [row]"
proof -
  let ?env = "example_env\<lparr>contributorUpdateThrows := True\<rparr>"
  have v: "validateProcessInput (parseDate ?env) example_input = Valid"
    using example_valid by simp
  have c: "declarationCreateThrows ?env = None" by (simp add: example_env_def)
  have i: "in_contributorId example_input = Some ''anon-1''" "''anon-1'' \<noteq> []"
    "in_consentForTrainingData example_input" by (simp_all add: example_input_def)
  have f: "contributorFindThrows ?env \<or> contributorUpdateThrows ?env
           \<or> (contributorCreateThrows ?env \<and> findContributor example_reward_db ''anon-1'' = None)"
    by simp
  from POST_reward_failure_swallowed[OF v c i f] show ?thesis by blast
qed

lemma gate_contrapositive:
  "(\<not> G \<longrightarrow> r = None \<and> c = c0) \<Longrightarrow> (r \<noteq> None \<or> c \<noteq> c0 \<longrightarrow> G)"
  by blast

text \<open>
  Claim C10. For a valid submission whose record the database accepts, the request
  succeeds with status 201 and the record is stored; when the contributor identifier is
  missing or empty, or consent is not given, the response carries no reward and the
  contributors table is unchanged, so a reward or a change to a contributor occurs only
  with an identifier and consent.
\<close>

theorem POST_reward_gate:
  assumes "validateProcessInput (parseDate env) input = Valid"
    and "declarationCreateThrows env = None"
  shows "\<exists>row resp d'. POST env (Some input) d = (resp, d')
           \<and> status resp = 201 \<and> success resp \<and> resp_id resp = Some (pd_id row)
           \<and> processDeclarations d' = processDeclarations d @ [row]
           \<and> (\<not> (truthy (in_contributorId input) \<and> in_consentForTrainingData input)
                \<longrightarrow> resp_reward resp = None \<and> contributors d' = contributors d)
           \<and> (resp_reward resp \<noteq> None \<or> contributors d' \<noteq> contributors d
                \<longrightarrow> truthy (in_contributorId input) \<and> in_consentForTrainingData input)"
proof -
  from POST_created[OF assms(1) assms(2), of d] obtain row where
    id: "pd_id row = newId env 1"
    and p: "POST env (Some input) d
               = (\<lparr> status = 201, success = True, resp_id = Some (newId env 1),
                     resp_reward = fst (rewardStep env input (newId env 1)
                        (d\<lparr>processDeclarations := processDeclarations d @ [row]\<rparr>)),
                     resp_error = None \<rparr>,
                  snd (rewardStep env input (newId env 1)
                        (d\<lparr>processDeclarations := processDeclarations d @ [row]\<rparr>)))"
    by blast
  define d1 where "d1 = d\<lparr>processDeclarations := processDeclarations d @ [row]\<rparr>"
  define rs where "rs = rewardStep env input (newId env 1) d1"
  define resp where "resp = \<lparr> status = 201, success = True, resp_id = Some (newId env 1),
                     resp_reward = fst rs, resp_error = None \<rparr>"
  have p': "POST env (Some input) d = (resp, snd rs)"
    using p by (simp only: resp_def rs_def d1_def)
  have c1: "contributors d1 = contributors d" and pd1: "processDeclarations d1 = processDeclarations d @ [row]"
    by (simp_all add: d1_def)
  have fr: "processDeclarations (snd rs) = processDeclarations d @ [row]"
    unfolding rs_def by (simp only: rewardStep_frame pd1)
  have closed: "\<not> (truthy (in_contributorId input) \<and> in_consentForTrainingData input)
                \<longrightarrow> resp_reward resp = None \<and> contributors (snd rs) = contributors d"
  proof
    assume g: "\<not> (truthy (in_contributorId input) \<and> in_consentForTrainingData input)"
    have "rs = (None, d1)" unfolding rs_def by (rule rewardStep_closed[OF g])
    then show "resp_reward resp = None \<and> contributors (snd rs) = contributors d"
      by (simp add: resp_def c1)
  qed
  have only: "resp_reward resp \<noteq> None \<or> contributors (snd rs) \<noteq> contributors d
                \<longrightarrow> truthy (in_contributorId input) \<and> in_consentForTrainingData input"
    by (rule gate_contrapositive[OF closed])
  have st: "status resp = 201" "success resp" "resp_id resp = Some (pd_id row)"
    by (simp_all add: resp_def id)
  show ?thesis
    apply (rule exI[of _ row])
    apply (rule exI[of _ resp])
    apply (rule exI[of _ "snd rs"])
    apply (intro conjI)
    apply (rule p')
    apply (rule st(1))
    apply (rule st(2))
    apply (rule st(3))
    apply (rule fr)
    apply (rule closed)
    apply (rule only)
    done
qed

lemma example_no_consent_valid:
  "validateProcessInput (parseDate example_env)
     (example_input\<lparr>in_consentForTrainingData := False\<rparr>) = Valid"
  by code_simp

theorem POST_reward_gate_witness:
  "\<exists>row resp d'. POST example_env (Some (example_input\<lparr>in_consentForTrainingData := False\<rparr>))
                    example_reward_db = (resp, d')
      \<and> status resp = 201 \<and> success resp \<and> resp_id resp = Some (pd_id row)
      \<and> processDeclarations d' = processDeclarations example_reward_db @ [row]
      \<and> resp_reward resp = None \<and> contributors d' = contributors example_reward_db"
proof -
  let ?input = "example_input\<lparr>in_consentForTrainingData := False\<rparr>"
  have c: "declarationCreateThrows example_env = None" by (simp add: example_env_def)
  have g: "\<not> (truthy (in_contributorId ?input) \<and> in_consentForTrainingData ?input)" by simp
  from POST_reward_gate[OF example_no_consent_valid c, of example_reward_db] g
  show ?thesis by blast
qed

end
